theory Spec2Isabelle
  imports
    Complex_Main
    "HOL-Library.Multiset"
    "HOL-Library.Char_ord"
    "HOL-Library.List_Lexorder"
    "HOL-Library.Product_Lexorder"
begin

section \<open>Adaptive recommendation and scoring engine\<close>

text \<open>
  The engine of \<^verbatim>\<open>CODE-EDUCATIONAL-TRANSFORMATION-06.py\<close> (item-response scoring,
  recommendation, trajectory simulation, weekly planning agent) and the guarded
  chat-completion helper of \<^verbatim>\<open>CODE-IDM-04-E.py\<close>.

  Conventions of the embedding.
  \<^item> A pandas data frame is a list of rows, each row a record with one field per column.
  \<^item> The source computes with IEEE doubles (numpy \<^verbatim>\<open>float64\<close>); the embedding computes
    with \<^typ>\<open>real\<close>. Rounding, overflow of \<^verbatim>\<open>exp\<close> and the values \<^verbatim>\<open>nan\<close>
    and \<^verbatim>\<open>inf\<close> are outside the model. Where numpy would produce \<^verbatim>\<open>nan\<close> or
    \<^verbatim>\<open>inf\<close> by dividing by zero, the model returns the error value \<open>NotANumber\<close>
    instead of HOL's \<open>x / 0 = 0\<close>.
  \<^item> A Python exception is a value \<open>Inl e\<close> of a sum type.
  \<^item> Strings are compared as Python compares them, character by character
    (the orders of \<^verbatim>\<open>Char_ord\<close> and \<^verbatim>\<open>List_Lexorder\<close>); tuples
    lexicographically (\<^verbatim>\<open>Product_Lexorder\<close>).
  \<^item> The module-level tables \<^verbatim>\<open>DF_STUD\<close>, \<^verbatim>\<open>DF_ITEMS\<close>, \<^verbatim>\<open>DF_TRAJ\<close>, the clock
    \<^verbatim>\<open>datetime.now()\<close>, the random generator and the remote service are explicit
    arguments.
\<close>

subsection \<open>Data model\<close>

datatype error = IndexError | ValueError | NotANumber

definition DOMAINS :: "string list" where
  "DOMAINS = [''Algebra'', ''Probability'', ''Calculus'', ''Statistics'', ''Programming'']"

text \<open>A row of \<^verbatim>\<open>simulate_students\<close>; the columns \<^verbatim>\<open>affinity_<domain>\<close> are the field
  \<open>affinity\<close>, a function of the domain name.\<close>

record student =
  student_id :: int
  ability_g :: real
  engagement :: real
  pace_min_day :: real
  goal_hours_week :: real
  affinity :: "string \<Rightarrow> real"

text \<open>A row of \<^verbatim>\<open>simulate_item_bank\<close> (columns \<^verbatim>\<open>item_id, domain, a, b, t_expected_min\<close>).\<close>

record item =
  item_id :: int
  item_domain :: string
  item_a :: real
  item_b :: real
  t_expected_min :: real

text \<open>A row of \<^verbatim>\<open>simulate_trajectories\<close>
  (columns \<^verbatim>\<open>student_id, domain, date, minutes, micro_score\<close>); a date is a day number.\<close>

record traj =
  traj_student_id :: int
  traj_domain :: string
  traj_date :: int
  traj_minutes :: int
  micro_score :: real

text \<open>A candidate row of \<^verbatim>\<open>recommend_items\<close>: an item row with the added columns
  \<^verbatim>\<open>gap\<close>, \<^verbatim>\<open>p_success\<close> and \<^verbatim>\<open>theta_d\<close>.\<close>

record cand = item +
  gap :: real
  rec_p_success :: real

record rec = cand +
  theta_d :: real

text \<open>A row of \<^verbatim>\<open>recent_progress\<close>
  (columns \<^verbatim>\<open>student_id, domain, minutes, micro_mean\<close>).\<close>

record progress =
  prog_student_id :: int
  prog_domain :: string
  prog_minutes :: int
  micro_mean :: real

text \<open>A row of the schedule \<^verbatim>\<open>df_sched\<close> of \<^verbatim>\<open>build_agent_plan\<close>
  (columns \<^verbatim>\<open>domain, day, hours\<close>).\<close>

record sched =
  sched_domain :: string
  sched_day :: string
  sched_hours :: real

subsection \<open>Numeric helpers\<close>

text \<open>\<^verbatim>\<open>np.clip(x, lo, hi)\<close> is \<^verbatim>\<open>minimum(maximum(x, lo), hi)\<close>.\<close>

definition clip :: "real \<Rightarrow> real \<Rightarrow> real \<Rightarrow> real" where
  "clip x lo hi = min (max x lo) hi"

text \<open>The mean of a column; every call site applies it to a non-empty column.\<close>

definition mean :: "real list \<Rightarrow> real" where
  "mean xs = sum_list xs / real (length xs)"

subsection \<open>Scoring model\<close>

text \<open>\<^verbatim>\<open>def p_success(a, b, theta): return 1 / (1 + np.exp(-a * (theta - b)))\<close>\<close>

definition p_success :: "real \<Rightarrow> real \<Rightarrow> real \<Rightarrow> real" where
  "p_success a b theta = 1 / (1 + exp (- a * (theta - b)))"


subsection \<open>Recommendation engine\<close>

text \<open>
  \<^verbatim>\<open>candidates.sort_values("gap")\<close> sorts one column with the default
  \<^verbatim>\<open>kind="quicksort"\<close>, which pandas documents as not stable (only \<^verbatim>\<open>mergesort\<close>
  and \<^verbatim>\<open>stable\<close> are): numpy's quicksort is an introsort, which does not keep rows
  of equal key in their original order. The sorting routine is library code, so it is an
  argument \<open>srt\<close> of the model; what the library promises of it is \<open>sort_values_ok\<close>:
  the result is a rearrangement of the rows, ascending in the key. The argument \<open>sid\<close>
  of the functions below is the source's \<^verbatim>\<open>student_id\<close>.
\<close>

type_synonym sorter = "(cand \<Rightarrow> real) \<Rightarrow> cand list \<Rightarrow> cand list"

definition sort_values_ok :: "sorter \<Rightarrow> bool" where
  "sort_values_ok srt \<longleftrightarrow>
     (\<forall>key xs. mset (srt key xs) = mset xs \<and> sorted (map key (srt key xs)))"

text \<open>\<^verbatim>\<open>df_students.loc[df_students.student_id == student_id].iloc[0]\<close>:
  the first matching row, \<^verbatim>\<open>IndexError\<close> when there is none.\<close>

definition student_row :: "int \<Rightarrow> student list \<Rightarrow> error + student" where
  "student_row sid df_students =
     (case filter (\<lambda>s. student_id s = sid) df_students of
        [] \<Rightarrow> Inl IndexError
      | row # _ \<Rightarrow> Inr row)"

text \<open>\<^verbatim>\<open>hist = score_history[(score_history.student_id == student_id)
  & (score_history.domain == d)]\<close>\<close>

definition history_of :: "int \<Rightarrow> string \<Rightarrow> traj list \<Rightarrow> traj list" where
  "history_of sid d score_history =
     filter (\<lambda>r. traj_student_id r = sid \<and> traj_domain r = d) score_history"

text \<open>The value of the local variable \<^verbatim>\<open>theta_d\<close> in the loop body of
  \<^verbatim>\<open>recommend_items\<close>, for the domain \<open>d\<close>.\<close>

definition estimate_theta :: "int \<Rightarrow> student list \<Rightarrow> traj list \<Rightarrow> string \<Rightarrow> error + real" where
  "estimate_theta sid df_students score_history d =
     (let hist = history_of sid d score_history in
      if length hist > 0 then
        Inr (clip ((mean (map micro_score hist) - 0.5) / 0.2) (- 2.5) 2.5)
      else
        (case student_row sid df_students of
           Inl e \<Rightarrow> Inl e
         | Inr row \<Rightarrow> Inr (clip (ability_g row * 0.7 + affinity row d * 0.3) (- 2.5) 2.5)))"

text \<open>An item row with the columns \<^verbatim>\<open>gap = |b - theta_d|\<close> and
  \<^verbatim>\<open>p_success = p_success(a, b, theta_d)\<close> added.\<close>

definition candidate :: "real \<Rightarrow> item \<Rightarrow> cand" where
  "candidate th i =
     \<lparr>item_id = item_id i, item_domain = item_domain i, item_a = item_a i,
      item_b = item_b i, t_expected_min = t_expected_min i,
      gap = \<bar>item_b i - th\<bar>, rec_p_success = p_success (item_a i) (item_b i) th\<rparr>"

text \<open>\<^verbatim>\<open>top["theta_d"] = theta_d\<close>\<close>

definition with_theta :: "real \<Rightarrow> cand \<Rightarrow> rec" where
  "with_theta th c =
     \<lparr>item_id = item_id c, item_domain = item_domain c, item_a = item_a c,
      item_b = item_b c, t_expected_min = t_expected_min c,
      gap = gap c, rec_p_success = rec_p_success c, theta_d = th\<rparr>"

text \<open>\<^verbatim>\<open>candidates = df_items[df_items.domain == d].copy()\<close> with the two columns added.\<close>

definition candidates :: "real \<Rightarrow> item list \<Rightarrow> string \<Rightarrow> cand list" where
  "candidates th df_items d = map (candidate th) (filter (\<lambda>i. item_domain i = d) df_items)"

text \<open>One pass of the loop \<^verbatim>\<open>for d in DOMAINS\<close>: the frame \<^verbatim>\<open>top\<close> appended to
  \<^verbatim>\<open>recs\<close>.\<close>

definition domain_recs ::
  "sorter \<Rightarrow> int \<Rightarrow> student list \<Rightarrow> item list \<Rightarrow> traj list \<Rightarrow> string \<Rightarrow> error + rec list" where
  "domain_recs srt sid df_students df_items score_history d =
     (case estimate_theta sid df_students score_history d of
        Inl e \<Rightarrow> Inl e
      | Inr th \<Rightarrow> Inr (map (with_theta th) (take 3 (srt gap (candidates th df_items d)))))"

text \<open>The loop itself: it stops at the first domain whose pass raises.\<close>

fun collect_recs :: "(string \<Rightarrow> error + rec list) \<Rightarrow> string list \<Rightarrow> error + rec list list" where
  "collect_recs f [] = Inr []"
| "collect_recs f (d # ds) =
     (case f d of
        Inl e \<Rightarrow> Inl e
      | Inr top3 \<Rightarrow>
          (case collect_recs f ds of
             Inl e \<Rightarrow> Inl e
           | Inr rest \<Rightarrow> Inr (top3 # rest)))"

text \<open>
  \<^verbatim>\<open>pd.concat(recs).sort_values(["domain", "gap"]).reset_index(drop=True)\<close>.
  Sorting by several columns is pandas' lexicographic sort, which is stable; the column
  \<^verbatim>\<open>domain\<close> holds strings, compared as strings.
\<close>

definition recommend_items ::
  "sorter \<Rightarrow> int \<Rightarrow> student list \<Rightarrow> item list \<Rightarrow> traj list \<Rightarrow> error + rec list" where
  "recommend_items srt sid df_students df_items score_history =
     (case collect_recs (domain_recs srt sid df_students df_items score_history) DOMAINS of
        Inl e \<Rightarrow> Inl e
      | Inr recs \<Rightarrow> Inr (sort_key (\<lambda>r. (item_domain r, gap r)) (concat recs)))"

subsection \<open>Recent-progress aggregation\<close>

text \<open>
  \<^verbatim>\<open>recent_progress(df_traj, days=7)\<close>: the rows dated on or after the cutoff
  \<^verbatim>\<open>today - days\<close>, grouped by \<^verbatim>\<open>(student_id, domain)\<close>; one output row per group,
  in ascending key order, with the sum of the minutes and the mean of the micro-scores.
\<close>

definition recent_progress :: "traj list \<Rightarrow> int \<Rightarrow> int \<Rightarrow> progress list" where
  "recent_progress df_traj today ndays =
     (let cutoff = today - ndays;
          df = filter (\<lambda>r. traj_date r \<ge> cutoff) df_traj
      in map (\<lambda>(sid, d).
                let g = filter (\<lambda>r. traj_student_id r = sid \<and> traj_domain r = d) df
                in \<lparr>prog_student_id = sid, prog_domain = d,
                    prog_minutes = sum_list (map traj_minutes g),
                    micro_mean = mean (map micro_score g)\<rparr>)
             (sort (remdups (map (\<lambda>r. (traj_student_id r, traj_domain r)) df))))"

subsection \<open>Weekly planning agent\<close>

text \<open>The local variable \<^verbatim>\<open>df7s\<close> of \<^verbatim>\<open>build_agent_plan\<close>: the learner's rows of
  \<^verbatim>\<open>recent_progress(DF_TRAJ, days=7)\<close>.\<close>

definition df7s :: "traj list \<Rightarrow> int \<Rightarrow> int \<Rightarrow> progress list" where
  "df7s df_traj today sid =
     filter (\<lambda>r. prog_student_id r = sid) (recent_progress df_traj today 7)"

text \<open>The frame \<^verbatim>\<open>weights\<close> (columns \<^verbatim>\<open>domain, weight\<close>) as the \<^verbatim>\<open>if\<close> cascade
  builds it.\<close>

definition initial_weights :: "string \<Rightarrow> progress list \<Rightarrow> (string \<times> real) list" where
  "initial_weights priority rows =
     (if length rows = 0 then map (\<lambda>d. (d, 1 / real (length DOMAINS))) DOMAINS
      else if priority = ''weak'' then map (\<lambda>r. (prog_domain r, 1 - micro_mean r)) rows
      else if priority = ''strong'' then map (\<lambda>r. (prog_domain r, micro_mean r)) rows
      else map (\<lambda>r. (prog_domain r, 1.0)) rows)"

text \<open>\<^verbatim>\<open>weights.groupby("domain", as_index=False).agg(weight=("weight", "mean"))\<close>\<close>

definition groupby_mean :: "(string \<times> real) list \<Rightarrow> (string \<times> real) list" where
  "groupby_mean ws =
     map (\<lambda>d. (d, mean (map snd (filter (\<lambda>r. fst r = d) ws)))) (sort (remdups (map fst ws)))"

text \<open>The weights of \<^verbatim>\<open>build_agent_plan\<close> after the \<^verbatim>\<open>groupby\<close>, before normalisation.\<close>

definition plan_weights :: "traj list \<Rightarrow> int \<Rightarrow> int \<Rightarrow> string \<Rightarrow> (string \<times> real) list" where
  "plan_weights df_traj today sid priority =
     groupby_mean (initial_weights priority (df7s df_traj today sid))"

text \<open>\<^verbatim>\<open>x / x.sum()\<close> on a numpy array or pandas column. A zero sum gives \<^verbatim>\<open>nan\<close> or
  \<^verbatim>\<open>inf\<close> entries in numpy (no exception); the model reports \<open>NotANumber\<close>.\<close>

definition normalise :: "real list \<Rightarrow> error + real list" where
  "normalise xs =
     (if xs \<noteq> [] \<and> sum_list xs = 0 then Inl NotANumber
      else Inr (map (\<lambda>x. x / sum_list xs) xs))"

definition week_days :: "string list" where
  "week_days = [''Mon'', ''Tue'', ''Wed'', ''Thu'', ''Fri'', ''Sat'', ''Sun'']"

definition day_shape :: "real list" where
  "day_shape = [1.1, 1.1, 1.1, 1.0, 1.0, 0.8, 0.9]"

text \<open>\<^verbatim>\<open>weights.loc[weights.domain == d, "hours"].iloc[0]\<close>: the hours of the first row of
  that domain.\<close>

definition base_hours :: "string \<Rightarrow> (string \<times> real) list \<Rightarrow> error + real" where
  "base_hours d hours = (case map_of hours d of None \<Rightarrow> Inl IndexError | Some h \<Rightarrow> Inr h)"

text \<open>The seven rows appended for one domain: \<^verbatim>\<open>assign = base * day_weights\<close>, one row
  per day name.\<close>

definition day_rows :: "string \<Rightarrow> real \<Rightarrow> real list \<Rightarrow> sched list" where
  "day_rows d base day_weights =
     map (\<lambda>(day, w). \<lparr>sched_domain = d, sched_day = day, sched_hours = base * w\<rparr>)
       (zip week_days day_weights)"

text \<open>The loop \<^verbatim>\<open>for d in weights["domain"]\<close>.\<close>

fun schedule_rows :: "(string \<times> real) list \<Rightarrow> real list \<Rightarrow> string list \<Rightarrow> error + sched list" where
  "schedule_rows hours day_weights [] = Inr []"
| "schedule_rows hours day_weights (d # ds) =
     (case base_hours d hours of
        Inl e \<Rightarrow> Inl e
      | Inr base \<Rightarrow>
          (case schedule_rows hours day_weights ds of
             Inl e \<Rightarrow> Inl e
           | Inr rows \<Rightarrow> Inr (day_rows d base day_weights @ rows)))"

text \<open>
  \<^verbatim>\<open>build_agent_plan(n, student_id, priority, goal_h)\<close>, with \<open>sid\<close> for
  \<^verbatim>\<open>student_id\<close>; the result is the schedule
  \<^verbatim>\<open>df_sched\<close> that the returned figure plots. The click counter \<^verbatim>\<open>n\<close> is not used.
  The missing learner raises (\<^verbatim>\<open>.iloc[0]\<close>) whatever the weights are, so that check
  comes first; the day weights are the same in every pass of the loop and are computed
  once.
\<close>

definition build_agent_plan ::
  "student list \<Rightarrow> traj list \<Rightarrow> int \<Rightarrow> int \<Rightarrow> string \<Rightarrow> real \<Rightarrow> error + sched list" where
  "build_agent_plan df_stud df_traj today sid priority goal_h =
     (let weights = plan_weights df_traj today sid priority in
      case student_row sid df_stud of
        Inl e \<Rightarrow> Inl e
      | Inr row \<Rightarrow>
          (case normalise (map snd weights) of
             Inl e \<Rightarrow> Inl e
           | Inr ws \<Rightarrow>
               (case normalise (map (\<lambda>x. x * (0.8 + 0.4 * engagement row)) day_shape) of
                  Inl e \<Rightarrow> Inl e
                | Inr day_weights \<Rightarrow>
                    schedule_rows (zip (map fst weights) (map (\<lambda>w. w * goal_h) ws))
                      day_weights (map fst weights))))"

text \<open>The hours a schedule gives to one domain, over all days.\<close>

definition domain_total :: "string \<Rightarrow> sched list \<Rightarrow> real" where
  "domain_total d rows = sum_list (map sched_hours (filter (\<lambda>r. sched_domain r = d) rows))"

subsection \<open>Trajectory simulator\<close>

text \<open>
  The global random generator is an argument: \<open>rng n\<close> is the pair of draws made in the
  \<open>n\<close>-th pass of the innermost loop, first the Poisson count, then the deviate
  \<^verbatim>\<open>np.random.normal(0, 0.08)\<close>. A Poisson sample is a count, hence a natural number;
  \<^verbatim>\<open>np.random.poisson\<close> raises \<^verbatim>\<open>ValueError\<close> when the rate is negative.
\<close>

type_synonym rng = "nat \<Rightarrow> nat \<times> real"

definition np_poisson :: "real \<Rightarrow> nat \<Rightarrow> error + int" where
  "np_poisson lam draw = (if lam < 0 then Inl ValueError else Inr (int draw))"

text \<open>The loop \<^verbatim>\<open>for k in range(days)\<close>; the last argument counts the draws made so far.\<close>

fun day_loop ::
  "rng \<Rightarrow> student \<Rightarrow> string \<Rightarrow> real \<Rightarrow> int \<Rightarrow> nat \<Rightarrow> nat list \<Rightarrow> nat \<Rightarrow> error + traj list \<times> nat" where
  "day_loop rng r d lam today ndays [] n = Inr ([], n)"
| "day_loop rng r d lam today ndays (k # ks) n =
     (case np_poisson (lam / 4.5) (fst (rng n)) of
        Inl e \<Rightarrow> Inl e
      | Inr minutes \<Rightarrow>
          (let mu = 0.55 + 0.18 * ability_g r + 0.12 * affinity r d + snd (rng n);
               micro = clip mu 0.05 0.98;
               row = \<lparr>traj_student_id = student_id r, traj_domain = d,
                      traj_date = today - (int ndays - int k),
                      traj_minutes = minutes, micro_score = micro\<rparr>
           in case day_loop rng r d lam today ndays ks (Suc n) of
                Inl e \<Rightarrow> Inl e
              | Inr (rows, n') \<Rightarrow> Inr (row # rows, n')))"

text \<open>The loop \<^verbatim>\<open>for d in domains\<close>, with the rate \<^verbatim>\<open>lam\<close> of the domain.\<close>

fun domain_loop ::
  "rng \<Rightarrow> student \<Rightarrow> int \<Rightarrow> nat \<Rightarrow> string list \<Rightarrow> nat \<Rightarrow> error + traj list \<times> nat" where
  "domain_loop rng r today ndays [] n = Inr ([], n)"
| "domain_loop rng r today ndays (d # ds) n =
     (let lam = max 5 (pace_min_day r * (0.5 + 0.5 * (affinity r d + 2) / 4)) in
      case day_loop rng r d lam today ndays [0..<ndays] n of
        Inl e \<Rightarrow> Inl e
      | Inr (rows, n') \<Rightarrow>
          (case domain_loop rng r today ndays ds n' of
             Inl e \<Rightarrow> Inl e
           | Inr (rest, n'') \<Rightarrow> Inr (rows @ rest, n'')))"

text \<open>The loop \<^verbatim>\<open>for _, r in df_students.iterrows()\<close>.\<close>

fun student_loop ::
  "rng \<Rightarrow> string list \<Rightarrow> int \<Rightarrow> nat \<Rightarrow> student list \<Rightarrow> nat \<Rightarrow> error + traj list \<times> nat" where
  "student_loop rng domains today ndays [] n = Inr ([], n)"
| "student_loop rng domains today ndays (r # rs) n =
     (case domain_loop rng r today ndays domains n of
        Inl e \<Rightarrow> Inl e
      | Inr (rows, n') \<Rightarrow>
          (case student_loop rng domains today ndays rs n' of
             Inl e \<Rightarrow> Inl e
           | Inr (rest, n'') \<Rightarrow> Inr (rows @ rest, n'')))"

text \<open>\<^verbatim>\<open>simulate_trajectories(df_students, domains, days)\<close>; \<open>today\<close> is the day number of
  \<^verbatim>\<open>datetime.now().date()\<close>.\<close>

definition simulate_trajectories ::
  "rng \<Rightarrow> student list \<Rightarrow> string list \<Rightarrow> int \<Rightarrow> nat \<Rightarrow> error + traj list" where
  "simulate_trajectories rng df_students domains today ndays =
     (case student_loop rng domains today ndays df_students 0 of
        Inl e \<Rightarrow> Inl e
      | Inr (rows, n) \<Rightarrow> Inr rows)"

text \<open>The documented bounds of a trajectory row.\<close>

definition within_bounds :: "traj \<Rightarrow> bool" where
  "within_bounds r \<longleftrightarrow> 0 \<le> traj_minutes r \<and> 0.05 \<le> micro_score r \<and> micro_score r \<le> 0.98"

subsection \<open>Explanation collaborator\<close>

text \<open>
  The chat-completion request is an argument \<open>create\<close>: it raises (\<open>Raises\<close> with the
  text of the exception), answers without usable content (\<open>NoContent\<close>), or answers with
  a text. A credential that Python treats as false (\<^verbatim>\<open>None\<close> or the empty string) is
  \<open>falsy\<close>.
\<close>

datatype api_outcome = Raises string | NoContent | Content string

definition falsy :: "string option \<Rightarrow> bool" where
  "falsy k \<longleftrightarrow> (case k of None \<Rightarrow> True | Some s \<Rightarrow> s = [])"

text \<open>\<^verbatim>\<open>safe_openai_call(api_key, system_instruction, history)\<close> of
  \<^verbatim>\<open>CODE-IDM-04-E.py\<close>; the module flag \<^verbatim>\<open>OPENAI_OK\<close> is an argument.\<close>

definition NO_LIBRARY_MESSAGE :: string where
  "NO_LIBRARY_MESSAGE = ''The environment does not have the OpenAI library installed. '' @
     ''Please install it using 'pip install openai'.''"

definition NO_KEY_MESSAGE :: string where
  "NO_KEY_MESSAGE =
     ''No API Key received. Please enter your API Key at the top and resend your question.''"

definition safe_openai_call ::
  "bool \<Rightarrow> (string \<Rightarrow> (string \<times> string) list \<Rightarrow> api_outcome) \<Rightarrow>
   string option \<Rightarrow> string \<Rightarrow> (string \<times> string) list \<Rightarrow> string" where
  "safe_openai_call OPENAI_OK create api_key system_instruction history =
     (if \<not> OPENAI_OK then NO_LIBRARY_MESSAGE
      else
        (case api_key of
           None \<Rightarrow> NO_KEY_MESSAGE
         | Some k \<Rightarrow>
             if k = [] then NO_KEY_MESSAGE
             else
               (case create k history of
                  Raises e \<Rightarrow>
                    ''The digital mentor is active with OpenAI, but the call failed.\<newline>'' @
                    ''Details: '' @ e @ ''\<newline>'' @
                    ''You can try again or check your key.''
                | NoContent \<Rightarrow> ''The API responded without content. Try again.''
                | Content c \<Rightarrow> c)))"

text \<open>
  The explanation returned by \<^verbatim>\<open>update_learning\<close> of
  \<^verbatim>\<open>CODE-EDUCATIONAL-TRANSFORMATION-06.py\<close>. The store \<^verbatim>\<open>api_store\<close> is \<^verbatim>\<open>None\<close> or a
  dictionary; \<open>stored_key\<close> is the key it holds, \<open>None\<close> exactly when the guard
  \<^verbatim>\<open>not api_store or "api_key" not in api_store or not api_store["api_key"]\<close> holds.
  \<^verbatim>\<open>str.strip\<close> is modelled on the ASCII white-space characters.
\<close>

definition ENTER_KEY_MESSAGE :: string where
  "ENTER_KEY_MESSAGE = ''Enter your OpenAI API key at the top to get an AI-generated '' @
     ''explanation for these recommendations.''"

definition stored_key :: "(string \<times> string option) list option \<Rightarrow> string option" where
  "stored_key api_store =
     (case api_store of
        None \<Rightarrow> None
      | Some st \<Rightarrow>
          (if st = [] then None
           else case map_of st ''api_key'' of
                  None \<Rightarrow> None
                | Some k \<Rightarrow> if falsy k then None else k))"

definition is_space :: "char \<Rightarrow> bool" where
  "is_space c \<longleftrightarrow> of_char c \<in> {9, 10, 11, 12, 13, 28, 29, 30, 31, 32 :: nat}"

definition strip :: "string \<Rightarrow> string" where
  "strip s = rev (dropWhile is_space (rev (dropWhile is_space s)))"

definition update_learning_explanation ::
  "(string \<Rightarrow> string \<Rightarrow> api_outcome) \<Rightarrow> (string \<times> string option) list option \<Rightarrow> string \<Rightarrow> string" where
  "update_learning_explanation create api_store prompt =
     (case stored_key api_store of
        None \<Rightarrow> ENTER_KEY_MESSAGE
      | Some api_key \<Rightarrow>
          (case create api_key prompt of
             Raises e \<Rightarrow> ''AI explanation could not be retrieved: '' @ e
           | NoContent \<Rightarrow> ''AI explanation could not be retrieved: list index out of range''
           | Content c \<Rightarrow> strip c))"

subsection \<open>Closed form of the schedule\<close>

text \<open>The day-shape vector normalised to sum 1, and the schedule built from a weight
  table with it; the properties below show that \<open>build_agent_plan\<close> returns this
  schedule.\<close>

definition unit_days :: "real list" where
  "unit_days = map (\<lambda>x. x / 7) day_shape"

definition plan_of :: "(string \<times> real) list \<Rightarrow> real \<Rightarrow> sched list" where
  "plan_of W goal_h =
     concat (map (\<lambda>(d, w). day_rows d (w / sum_list (map snd W) * goal_h) unit_days) W)"

subsection \<open>Orderings named by the specification\<close>

text \<open>A sorting routine that meets \<open>sort_values_ok\<close> and leaves rows of equal key in the
  reverse of their original order.\<close>

definition tie_reversing_sort :: sorter where
  "tie_reversing_sort key xs = sort_key key (rev xs)"

text \<open>The position of a domain in the fixed list \<open>DOMAINS\<close> (its enumeration order), and
  the ordering "by domain in enumeration order, then by gap".\<close>

definition domain_index :: "string \<Rightarrow> nat" where
  "domain_index d = length (takeWhile (\<lambda>x. x \<noteq> d) DOMAINS)"

definition enumeration_sorted :: "rec list \<Rightarrow> bool" where
  "enumeration_sorted recs \<longleftrightarrow> sorted (map (\<lambda>r. (domain_index (item_domain r), gap r)) recs)"

subsection \<open>Example tables\<close>

text \<open>Small concrete tables on which the properties below are evaluated.\<close>

definition ex_student :: student where
  "ex_student = \<lparr>student_id = 0, ability_g = 1, engagement = 0.5, pace_min_day = 45,
     goal_hours_week = 4, affinity = (\<lambda>d. 1)\<rparr>"

definition ex_item :: "int \<Rightarrow> string \<Rightarrow> real \<Rightarrow> item" where
  "ex_item n d b = \<lparr>item_id = n, item_domain = d, item_a = 1, item_b = b, t_expected_min = 8\<rparr>"

definition ex_items :: "item list" where
  "ex_items = [ex_item 0 ''Algebra'' 2, ex_item 1 ''Algebra'' 0,
               ex_item 2 ''Probability'' 1, ex_item 3 ''Calculus'' 1]"

definition ex_history :: "traj list" where
  "ex_history = [\<lparr>traj_student_id = 0, traj_domain = ''Algebra'', traj_date = 10,
                   traj_minutes = 12, micro_score = 0.7\<rparr>]"

definition ex_full_history :: "traj list" where
  "ex_full_history = map (\<lambda>d. \<lparr>traj_student_id = 99, traj_domain = d, traj_date = 10,
                   traj_minutes = 12, micro_score = 0.5\<rparr>) DOMAINS"

definition ex_week :: "traj list" where
  "ex_week =
     [\<lparr>traj_student_id = 0, traj_domain = ''Algebra'', traj_date = 10,
        traj_minutes = 12, micro_score = 0.9\<rparr>,
      \<lparr>traj_student_id = 0, traj_domain = ''Calculus'', traj_date = 11,
        traj_minutes = 20, micro_score = 0.1\<rparr>]"

text \<open>A history with several records per learner and domain, records of another learner
  in between, and means outside \<open>[0, 1]\<close>; a learner table with a second learner first and
  a duplicate row of learner 7; a bank of four Algebra items with difficulties 0, 0, 1, 1.\<close>

definition ex_score :: "int \<Rightarrow> string \<Rightarrow> real \<Rightarrow> traj" where
  "ex_score sid d m = \<lparr>traj_student_id = sid, traj_domain = d, traj_date = 10,
     traj_minutes = 12, micro_score = m\<rparr>"

definition ex_mixed_history :: "traj list" where
  "ex_mixed_history =
     [ex_score 7 ''Algebra'' 1.2, ex_score 8 ''Algebra'' 0.1, ex_score 7 ''Algebra'' 1.4,
      ex_score 7 ''Calculus'' (- 0.2), ex_score 7 ''Probability'' 0.5,
      ex_score 7 ''Calculus'' (- 0.4), ex_score 7 ''Probability'' 0.6,
      ex_score 7 ''Probability'' 0.7]"

definition ex_learner :: "int \<Rightarrow> real \<Rightarrow> real \<Rightarrow> student" where
  "ex_learner sid g aff = \<lparr>student_id = sid, ability_g = g, engagement = 0.5,
     pace_min_day = 45, goal_hours_week = 4, affinity = (\<lambda>d. aff)\<rparr>"

definition ex_learners :: "student list" where
  "ex_learners = [ex_learner 8 (- 5) (- 1), ex_learner 7 5 1, ex_learner 7 0 0]"

definition ex_four :: "item list" where
  "ex_four = [ex_item 0 ''Algebra'' 0, ex_item 1 ''Algebra'' 0,
              ex_item 2 ''Algebra'' 1, ex_item 3 ''Algebra'' 1]"

section \<open>Properties\<close>

subsection \<open>Scoring model\<close>

lemma p_success_pos: "0 < p_success a b theta"
  by (simp add: p_success_def add_pos_pos)

lemma p_success_less_one: "p_success a b theta < 1"
  by (simp add: p_success_def add_pos_pos)

lemma p_success_strict_mono:
  assumes "0 < a" and "t1 < t2"
  shows "p_success a b t1 < p_success a b t2"
proof -
  from assms have "- a * (t2 - b) < - a * (t1 - b)"
    by (simp add: mult_strict_left_mono)
  then have "exp (- a * (t2 - b)) < exp (- a * (t1 - b))"
    by simp
  then have "1 + exp (- a * (t2 - b)) < 1 + exp (- a * (t1 - b))"
    by simp
  moreover have "0 < 1 + exp (- a * (t2 - b))"
    by (simp add: add_pos_pos)
  ultimately show ?thesis
    unfolding p_success_def by (simp add: frac_less2)
qed

lemma p_success_half_iff:
  assumes "0 < a"
  shows "p_success a b theta = 0.5 \<longleftrightarrow> theta = b"
proof -
  have pos: "0 < 1 + exp (- a * (theta - b))"
    by (simp add: add_pos_pos)
  have "p_success a b theta = 0.5 \<longleftrightarrow> 1 + exp (- a * (theta - b)) = 2"
    unfolding p_success_def using pos by (auto simp: field_simps)
  also have "\<dots> \<longleftrightarrow> exp (- a * (theta - b)) = 1"
    by auto
  also have "\<dots> \<longleftrightarrow> - a * (theta - b) = 0"
    by (rule exp_eq_one_iff)
  also have "\<dots> \<longleftrightarrow> theta = b"
    using assms by auto
  finally show ?thesis .
qed

text \<open>
  In exact arithmetic, for every discrimination \<open>a > 0\<close>, the logistic link lies strictly
  between 0 and 1, is strictly increasing in \<open>theta\<close>, and is 0.5 exactly when
  \<open>theta = b\<close>. This is a fact about the formula over the reals only. The source
  evaluates it in IEEE double precision, where \<^verbatim>\<open>1 + exp(-37)\<close> rounds to 1 (the value at
  \<open>a = 1, b = 0, theta = 37\<close> is exactly 1.0), \<^verbatim>\<open>exp(710)\<close> overflows (the value at
  \<open>theta = -710\<close> is 0.0) and neighbouring doubles of \<open>theta\<close> can give equal values;
  that arithmetic is outside this embedding.
\<close>

lemma p_success_exact_arithmetic:
  assumes "0 < a"
  shows "p_success a b theta = 1 / (1 + exp (- a * (theta - b)))
       \<and> 0 < p_success a b theta \<and> p_success a b theta < 1
       \<and> strict_mono (p_success a b)
       \<and> (p_success a b theta = 0.5 \<longleftrightarrow> theta = b)"
proof -
  have formula: "p_success a b theta = 1 / (1 + exp (- a * (theta - b)))"
    by (simp add: p_success_def)
  have mono: "strict_mono (p_success a b)"
    unfolding strict_mono_def using assms by (simp add: p_success_strict_mono)
  have half: "p_success a b theta = 0.5 \<longleftrightarrow> theta = b"
    using assms by (rule p_success_half_iff)
  from formula mono half p_success_pos [of a b theta] p_success_less_one [of a b theta]
  show ?thesis by blast
qed

subsection \<open>Recommendation engine\<close>

lemma clip_bounds: "lo \<le> hi \<Longrightarrow> lo \<le> clip x lo hi \<and> clip x lo hi \<le> hi"
  by (auto simp: clip_def)

lemma estimate_theta_clipped:
  "estimate_theta sid df_students score_history d = Inr th \<Longrightarrow> \<exists>x. th = clip x (- 2.5) 2.5"
  unfolding estimate_theta_def Let_def
  by (cases "student_row sid df_students") (auto split: if_splits)

lemma estimate_theta_range:
  assumes "estimate_theta sid df_students score_history d = Inr th"
  shows "- 2.5 \<le> th \<and> th \<le> 2.5"
proof -
  from assms obtain x where "th = clip x (- 2.5) 2.5"
    using estimate_theta_clipped by blast
  then show ?thesis
    using clip_bounds [of "- 2.5" "2.5" x] by simp
qed

lemma collect_recs_Inr_iff: "collect_recs f ds = Inr bs \<longleftrightarrow> map f ds = map Inr bs"
proof (induction ds arbitrary: bs)
  case Nil
  then show ?case by auto
next
  case (Cons d ds)
  show ?case
  proof (cases "f d")
    case (Inl e)
    then show ?thesis by (cases bs) auto
  next
    case (Inr b)
    show ?thesis
    proof (cases "collect_recs f ds")
      case (Inl e)
      with Cons.IH have "\<And>bs'. map f ds \<noteq> map Inr bs'" by auto
      with Inl Inr show ?thesis by (cases bs) auto
    next
      case r: (Inr rest)
      with Cons.IH [of rest] Cons.IH Inr show ?thesis by (cases bs) auto
    qed
  qed
qed

lemma collect_recs_Inl:
  "collect_recs f ds = Inl e \<Longrightarrow> \<exists>d\<in>set ds. f d = Inl e"
  by (induction ds) (auto split: sum.splits)

lemma collect_recs_fails:
  "d \<in> set ds \<Longrightarrow> f d = Inl e \<Longrightarrow> \<exists>e'. collect_recs f ds = Inl e'"
  by (induction ds) (auto split: sum.splits)

lemma collect_recs_total:
  "(\<forall>d\<in>set ds. \<exists>b. f d = Inr b) \<Longrightarrow> \<exists>bs. collect_recs f ds = Inr bs"
  by (induction ds) (auto split: sum.splits)

lemma filter_concat_blocks:
  assumes "distinct ds" and "map f ds = map Inr bs"
    and "\<And>d' b' r. d' \<in> set ds \<Longrightarrow> f d' = Inr b' \<Longrightarrow> r \<in> set b' \<Longrightarrow> k r = d'"
    and "d \<in> set ds" and "f d = Inr b"
  shows "filter (\<lambda>r. k r = d) (concat bs) = b"
  using assms
proof (induction ds arbitrary: bs)
  case Nil
  then show ?case by simp
next
  case (Cons x xs)
  then obtain c cs where bs: "bs = c # cs" and c: "f x = Inr c" and cs: "map f xs = map Inr cs"
    by (cases bs) auto
  have inblock: "\<And>d' b' r. d' \<in> set (x # xs) \<Longrightarrow> f d' = Inr b' \<Longrightarrow> r \<in> set b' \<Longrightarrow> k r = d'"
    using Cons.prems(3) by blast
  show ?case
  proof (cases "d = x")
    case True
    then have bc: "b = c" using c Cons.prems(5) by simp
    have "filter (\<lambda>r. k r = d) c = c"
      using inblock [of x c] c True by (auto simp: filter_id_conv)
    moreover have "filter (\<lambda>r. k r = d) (concat cs) = []"
    proof -
      have "\<And>r. r \<in> set (concat cs) \<Longrightarrow> k r \<noteq> d"
      proof -
        fix r assume "r \<in> set (concat cs)"
        then obtain b' where b': "b' \<in> set cs" and r: "r \<in> set b'" by auto
        from b' obtain i where i: "i < length cs" and bi: "cs ! i = b'"
          by (auto simp: in_set_conv_nth)
        from cs have len: "length xs = length cs" by (metis length_map)
        from cs i len have "f (xs ! i) = Inr b'"
          by (metis bi nth_map)
        moreover have "xs ! i \<in> set xs" using i len by simp
        ultimately have "k r = xs ! i" using inblock r by auto
        with \<open>xs ! i \<in> set xs\<close> Cons.prems(1) True show "k r \<noteq> d" by auto
      qed
      then show ?thesis by (auto simp: filter_empty_conv)
    qed
    ultimately show ?thesis using bs bc by simp
  next
    case False
    then have dxs: "d \<in> set xs" using Cons.prems(4) by simp
    have "filter (\<lambda>r. k r = d) c = []"
      using inblock [of x c] c False by (auto simp: filter_empty_conv)
    moreover have "filter (\<lambda>r. k r = d) (concat cs) = b"
      using Cons.IH [OF _ cs _ dxs Cons.prems(5)] Cons.prems(1) inblock by auto
    ultimately show ?thesis using bs by simp
  qed
qed

lemma distinct_DOMAINS: "distinct DOMAINS"
  by (simp add: DOMAINS_def)

lemma with_theta_simps:
  "item_domain (with_theta th c) = item_domain c"
  "gap (with_theta th c) = gap c"
  "theta_d (with_theta th c) = th"
  "item_id (with_theta th c) = item_id c"
  by (simp_all add: with_theta_def)

lemma candidate_simps:
  "item_domain (candidate th i) = item_domain i"
  "gap (candidate th i) = \<bar>item_b i - th\<bar>"
  "item_id (candidate th i) = item_id i"
  "rec_p_success (candidate th i) = p_success (item_a i) (item_b i) th"
  by (simp_all add: candidate_def)

lemma candidates_domain: "c \<in> set (candidates th df_items d) \<Longrightarrow> item_domain c = d"
  by (auto simp: candidates_def candidate_simps)

lemma sort_values_ok_set: "sort_values_ok srt \<Longrightarrow> set (srt key xs) = set xs"
  unfolding sort_values_ok_def by (metis set_mset_mset)

lemma sort_values_ok_length: "sort_values_ok srt \<Longrightarrow> length (srt key xs) = length xs"
  unfolding sort_values_ok_def by (metis size_mset)

lemma sort_values_ok_sorted: "sort_values_ok srt \<Longrightarrow> sorted (map key (srt key xs))"
  unfolding sort_values_ok_def by blast

lemma sort_values_ok_sort_key: "sort_values_ok sort_key"
  unfolding sort_values_ok_def by simp

lemma domain_recs_domain:
  assumes "sort_values_ok srt"
    and "domain_recs srt sid df_students df_items score_history d = Inr b"
    and "r \<in> set b"
  shows "item_domain r = d"
proof -
  from assms(2) obtain th where
    b: "b = map (with_theta th) (take 3 (srt gap (candidates th df_items d)))"
    unfolding domain_recs_def by (auto split: sum.splits)
  with assms(3) obtain c where "c \<in> set (take 3 (srt gap (candidates th df_items d)))"
    and r: "r = with_theta th c" by auto
  then have "c \<in> set (candidates th df_items d)"
    using sort_values_ok_set [OF assms(1)] by (metis in_set_takeD)
  then show ?thesis using r by (simp add: with_theta_simps candidates_domain)
qed

lemma domain_recs_sorted:
  assumes "sort_values_ok srt"
    and "domain_recs srt sid df_students df_items score_history d = Inr b"
  shows "sorted (map gap b)"
proof -
  from assms(2) obtain th where
    b: "b = map (with_theta th) (take 3 (srt gap (candidates th df_items d)))"
    unfolding domain_recs_def by (auto split: sum.splits)
  have "map gap b = take 3 (map gap (srt gap (candidates th df_items d)))"
    unfolding b by (simp add: take_map comp_def with_theta_simps)
  then show ?thesis
    using sort_values_ok_sorted [OF assms(1)] by (simp add: sorted_wrt_take)
qed

lemma sorted_same_domain:
  assumes "\<forall>r\<in>set b. k r = d" and "sorted (map g b)"
  shows "sorted (map (\<lambda>r. (k r, g r)) b)"
  using assms by (induction b) auto

lemma recommend_items_block:
  assumes ok: "sort_values_ok srt"
    and res: "recommend_items srt sid df_students df_items score_history = Inr recs"
    and d: "d \<in> set DOMAINS"
    and blk: "domain_recs srt sid df_students df_items score_history d = Inr b"
  shows "filter (\<lambda>r. item_domain r = d) recs = b"
proof -
  let ?f = "domain_recs srt sid df_students df_items score_history"
  from res obtain bs where bs: "collect_recs ?f DOMAINS = Inr bs"
    and recs: "recs = sort_key (\<lambda>r. (item_domain r, gap r)) (concat bs)"
    unfolding recommend_items_def by (auto split: sum.splits)
  from bs have m: "map ?f DOMAINS = map Inr bs"
    by (simp add: collect_recs_Inr_iff)
  have "filter (\<lambda>r. item_domain r = d) (concat bs) = b"
    by (rule filter_concat_blocks [OF distinct_DOMAINS m _ d blk])
       (rule domain_recs_domain [OF ok])
  then have "filter (\<lambda>r. item_domain r = d) recs = sort_key (\<lambda>r. (item_domain r, gap r)) b"
    unfolding recs by (simp add: filter_sort)
  also have "\<dots> = b"
    by (rule sort_key_id_if_sorted, rule sorted_same_domain)
       (use domain_recs_domain [OF ok blk] domain_recs_sorted [OF ok blk] in auto)
  finally show ?thesis .
qed

lemma recommend_items_sorted:
  assumes "recommend_items srt sid df_students df_items score_history = Inr recs"
  shows "sorted (map (\<lambda>r. (item_domain r, gap r)) recs)"
  using assms unfolding recommend_items_def by (auto split: sum.splits)

lemmas ex_defs = ex_student_def ex_item_def ex_items_def ex_history_def

lemmas rec_defs = recommend_items_def domain_recs_def estimate_theta_def history_of_def
  student_row_def candidates_def candidate_def with_theta_def DOMAINS_def clip_def mean_def

lemma sort_values_ok_tie_reversing: "sort_values_ok tie_reversing_sort"
  unfolding sort_values_ok_def tie_reversing_sort_def by simp

lemma domain_recs_theta:
  assumes "domain_recs srt sid df_students df_items score_history d = Inr b" and "r \<in> set b"
  shows "estimate_theta sid df_students score_history d = Inr (theta_d r)"
  using assms unfolding domain_recs_def by (auto split: sum.splits simp: with_theta_simps)

lemma recommend_items_blocks:
  assumes "recommend_items srt sid df_students df_items score_history = Inr recs"
  shows "\<exists>bs. map (domain_recs srt sid df_students df_items score_history) DOMAINS = map Inr bs
           \<and> set recs = set (concat bs)"
  using assms unfolding recommend_items_def
  by (auto split: sum.splits simp: collect_recs_Inr_iff)

lemma map_Inr_block:
  assumes "map f ds = map Inr bs" and "d \<in> set ds"
  shows "\<exists>b. f d = Inr b \<and> b \<in> set bs"
proof -
  from assms(2) obtain i where i: "i < length ds" and di: "ds ! i = d"
    by (auto simp: in_set_conv_nth)
  from assms(1) have len: "length ds = length bs" by (metis length_map)
  from assms(1) i len have "f (ds ! i) = Inr (bs ! i)" by (metis nth_map)
  with i len di show ?thesis by auto
qed

lemma map_Inr_source:
  assumes "map f ds = map Inr bs" and "b \<in> set bs"
  shows "\<exists>d\<in>set ds. f d = Inr b"
proof -
  from assms(2) obtain i where i: "i < length bs" and bi: "bs ! i = b"
    by (auto simp: in_set_conv_nth)
  from assms(1) have len: "length ds = length bs" by (metis length_map)
  from assms(1) i len have "f (ds ! i) = Inr (bs ! i)" by (metis nth_map)
  with i len bi show ?thesis by auto
qed

lemma recommend_items_row_source:
  assumes "recommend_items srt sid df_students df_items score_history = Inr recs" and "r \<in> set recs"
  shows "\<exists>d\<in>set DOMAINS. \<exists>b. domain_recs srt sid df_students df_items score_history d = Inr b \<and> r \<in> set b"
proof -
  from recommend_items_blocks [OF assms(1)] obtain bs where
    m: "map (domain_recs srt sid df_students df_items score_history) DOMAINS = map Inr bs"
    and s: "set recs = set (concat bs)" by blast
  from s assms(2) obtain b where b: "b \<in> set bs" and r: "r \<in> set b" by auto
  from map_Inr_source [OF m b] r show ?thesis by blast
qed

text \<open>
  Claim C1. For a learner and a domain, the ability estimate computed by
  \<^verbatim>\<open>recommend_items\<close> is \<open>clip ((mean micro-score - 0.5) / 0.2, -2.5, 2.5)\<close>, the mean
  taken over all history records of that learner and domain, when there is at least one
  such record; otherwise, for a learner of the collection (first matching row), it is
  \<open>clip (0.7 * global ability + 0.3 * affinity, -2.5, 2.5)\<close>; in both cases it lies in
  \<open>[-2.5, 2.5]\<close>, whatever the history holds; and every returned row carries the estimate
  of its domain in its column \<^verbatim>\<open>theta_d\<close>. The selection of the records, the mean and the
  clip are written out: the filter on both columns, sum over length, \<open>min\<close> of \<open>max\<close>.
\<close>

theorem theta_d_estimate:
  "(let hist = filter (\<lambda>r. traj_student_id r = sid \<and> traj_domain r = d) score_history;
        m = sum_list (map micro_score hist) / real (length hist)
    in hist \<noteq> [] \<longrightarrow>
       estimate_theta sid df_students score_history d
         = Inr (min (max ((m - 0.5) / 0.2) (- 2.5)) 2.5))
   \<and> (filter (\<lambda>r. traj_student_id r = sid \<and> traj_domain r = d) score_history = [] \<longrightarrow>
      filter (\<lambda>s. student_id s = sid) df_students = row # others \<longrightarrow>
      estimate_theta sid df_students score_history d
        = Inr (min (max (0.7 * ability_g row + 0.3 * affinity row d) (- 2.5)) 2.5))
   \<and> (estimate_theta sid df_students score_history d = Inr th \<longrightarrow> - 2.5 \<le> th \<and> th \<le> 2.5)
   \<and> (sort_values_ok srt \<longrightarrow>
        recommend_items srt sid df_students df_items score_history = Inr recs \<longrightarrow> r \<in> set recs \<longrightarrow>
        estimate_theta sid df_students score_history (item_domain r) = Inr (theta_d r))"
proof -
  have hist: "let hist = filter (\<lambda>r. traj_student_id r = sid \<and> traj_domain r = d) score_history;
        m = sum_list (map micro_score hist) / real (length hist)
    in hist \<noteq> [] \<longrightarrow>
       estimate_theta sid df_students score_history d
         = Inr (min (max ((m - 0.5) / 0.2) (- 2.5)) 2.5)"
    by (simp add: estimate_theta_def history_of_def mean_def clip_def Let_def)
  have nohist: "filter (\<lambda>r. traj_student_id r = sid \<and> traj_domain r = d) score_history = [] \<longrightarrow>
      filter (\<lambda>s. student_id s = sid) df_students = row # others \<longrightarrow>
      estimate_theta sid df_students score_history d
        = Inr (min (max (0.7 * ability_g row + 0.3 * affinity row d) (- 2.5)) 2.5)"
    by (simp add: estimate_theta_def history_of_def student_row_def clip_def Let_def mult.commute)
  have range: "estimate_theta sid df_students score_history d = Inr th \<longrightarrow> - 2.5 \<le> th \<and> th \<le> 2.5"
    using estimate_theta_range by blast
  have rows: "sort_values_ok srt \<longrightarrow>
        recommend_items srt sid df_students df_items score_history = Inr recs \<longrightarrow> r \<in> set recs \<longrightarrow>
        estimate_theta sid df_students score_history (item_domain r) = Inr (theta_d r)"
  proof (intro impI)
    assume ok: "sort_values_ok srt"
      and res: "recommend_items srt sid df_students df_items score_history = Inr recs"
      and r: "r \<in> set recs"
    from recommend_items_row_source [OF res r] obtain d' b where
      blk: "domain_recs srt sid df_students df_items score_history d' = Inr b" and rb: "r \<in> set b"
      by blast
    from domain_recs_domain [OF ok blk rb] domain_recs_theta [OF blk rb]
    show "estimate_theta sid df_students score_history (item_domain r) = Inr (theta_d r)"
      by simp
  qed
  from hist nohist range rows show ?thesis by blast
qed

text \<open>
  On the example tables, learner 7: the two Algebra records (1.2 and 1.4, a record of
  learner 8 between them) have mean 1.3, which gives 4 and is clipped to 2.5; the two
  Calculus records have mean -0.3, which gives -4 and is clipped to -2.5; the three
  Probability records have mean 0.6, which gives 0.5; Statistics has no record, and the
  first row of learner 7 gives 0.7 * 5 + 0.3 * 1 = 3.8, clipped to 2.5. Learner 8 has no
  Statistics record either and gets -3.8, clipped to -2.5.
\<close>

theorem theta_d_estimate_witness:
  "filter (\<lambda>r. traj_student_id r = 7 \<and> traj_domain r = ''Algebra'') ex_mixed_history
     = [ex_score 7 ''Algebra'' 1.2, ex_score 7 ''Algebra'' 1.4]
   \<and> estimate_theta 7 ex_learners ex_mixed_history ''Algebra'' = Inr 2.5
   \<and> filter (\<lambda>r. traj_student_id r = 7 \<and> traj_domain r = ''Calculus'') ex_mixed_history
     = [ex_score 7 ''Calculus'' (- 0.2), ex_score 7 ''Calculus'' (- 0.4)]
   \<and> estimate_theta 7 ex_learners ex_mixed_history ''Calculus'' = Inr (- 2.5)
   \<and> filter (\<lambda>r. traj_student_id r = 7 \<and> traj_domain r = ''Probability'') ex_mixed_history
     = [ex_score 7 ''Probability'' 0.5, ex_score 7 ''Probability'' 0.6,
        ex_score 7 ''Probability'' 0.7]
   \<and> estimate_theta 7 ex_learners ex_mixed_history ''Probability'' = Inr 0.5
   \<and> filter (\<lambda>r. traj_student_id r = 7 \<and> traj_domain r = ''Statistics'') ex_mixed_history = []
   \<and> filter (\<lambda>s. student_id s = 7) ex_learners = [ex_learner 7 5 1, ex_learner 7 0 0]
   \<and> estimate_theta 7 ex_learners ex_mixed_history ''Statistics'' = Inr 2.5
   \<and> filter (\<lambda>r. traj_student_id r = 8 \<and> traj_domain r = ''Statistics'') ex_mixed_history = []
   \<and> filter (\<lambda>s. student_id s = 8) ex_learners = [ex_learner 8 (- 5) (- 1)]
   \<and> estimate_theta 8 ex_learners ex_mixed_history ''Statistics'' = Inr (- 2.5)
   \<and> sort_values_ok sort_key
   \<and> recommend_items sort_key 7 ex_learners [ex_item 3 ''Calculus'' 2] ex_mixed_history
        = Inr [with_theta (- 2.5) (candidate (- 2.5) (ex_item 3 ''Calculus'' 2))]
   \<and> estimate_theta 7 ex_learners ex_mixed_history
        (item_domain (with_theta (- 2.5) (candidate (- 2.5) (ex_item 3 ''Calculus'' 2))))
        = Inr (theta_d (with_theta (- 2.5) (candidate (- 2.5) (ex_item 3 ''Calculus'' 2))))"
proof -
  let ?r = "with_theta (- 2.5) (candidate (- 2.5) (ex_item 3 ''Calculus'' 2))"
  have fa: "filter (\<lambda>r. traj_student_id r = 7 \<and> traj_domain r = ''Algebra'') ex_mixed_history
     = [ex_score 7 ''Algebra'' 1.2, ex_score 7 ''Algebra'' 1.4]"
    by (simp add: ex_mixed_history_def ex_score_def)
  have fc: "filter (\<lambda>r. traj_student_id r = 7 \<and> traj_domain r = ''Calculus'') ex_mixed_history
     = [ex_score 7 ''Calculus'' (- 0.2), ex_score 7 ''Calculus'' (- 0.4)]"
    by (simp add: ex_mixed_history_def ex_score_def)
  have fp: "filter (\<lambda>r. traj_student_id r = 7 \<and> traj_domain r = ''Probability'') ex_mixed_history
     = [ex_score 7 ''Probability'' 0.5, ex_score 7 ''Probability'' 0.6,
        ex_score 7 ''Probability'' 0.7]"
    by (simp add: ex_mixed_history_def ex_score_def)
  have fs7: "filter (\<lambda>r. traj_student_id r = 7 \<and> traj_domain r = ''Statistics'') ex_mixed_history = []"
    by (simp add: ex_mixed_history_def ex_score_def)
  have fs8: "filter (\<lambda>r. traj_student_id r = 8 \<and> traj_domain r = ''Statistics'') ex_mixed_history = []"
    by (simp add: ex_mixed_history_def ex_score_def)
  have l7: "filter (\<lambda>s. student_id s = 7) ex_learners = [ex_learner 7 5 1, ex_learner 7 0 0]"
    by (simp add: ex_learners_def ex_learner_def)
  have l8: "filter (\<lambda>s. student_id s = 8) ex_learners = [ex_learner 8 (- 5) (- 1)]"
    by (simp add: ex_learners_def ex_learner_def)
  have res: "recommend_items sort_key 7 ex_learners [ex_item 3 ''Calculus'' 2] ex_mixed_history
        = Inr [?r]"
    by (simp add: rec_defs ex_item_def ex_mixed_history_def ex_score_def ex_learners_def
        ex_learner_def)
  note est = theta_d_estimate [where score_history = ex_mixed_history and df_students = ex_learners]
  from est [where sid = 7 and d = "''Algebra''"] fa
  have a: "estimate_theta 7 ex_learners ex_mixed_history ''Algebra'' = Inr 2.5"
    by (simp add: Let_def ex_score_def)
  from est [where sid = 7 and d = "''Calculus''"] fc
  have c: "estimate_theta 7 ex_learners ex_mixed_history ''Calculus'' = Inr (- 2.5)"
    by (simp add: Let_def ex_score_def)
  from est [where sid = 7 and d = "''Probability''"] fp
  have p: "estimate_theta 7 ex_learners ex_mixed_history ''Probability'' = Inr 0.5"
    by (simp add: Let_def ex_score_def)
  from est [where sid = 7 and d = "''Statistics''" and row = "ex_learner 7 5 1"
      and others = "[ex_learner 7 0 0]"] fs7 l7
  have s7: "estimate_theta 7 ex_learners ex_mixed_history ''Statistics'' = Inr 2.5"
    by (simp add: ex_learner_def)
  from est [where sid = 8 and d = "''Statistics''" and row = "ex_learner 8 (- 5) (- 1)"
      and others = "[]"] fs8 l8
  have s8: "estimate_theta 8 ex_learners ex_mixed_history ''Statistics'' = Inr (- 2.5)"
    by (simp add: ex_learner_def)
  from est [where sid = 7 and srt = sort_key and df_items = "[ex_item 3 ''Calculus'' 2]"
      and recs = "[?r]" and r = ?r] res sort_values_ok_sort_key
  have row: "estimate_theta 7 ex_learners ex_mixed_history (item_domain ?r) = Inr (theta_d ?r)"
    by simp
  from fa a fc c fp p fs7 l7 s7 fs8 l8 s8 sort_values_ok_sort_key res row
  show ?thesis by blast
qed

lemma recommend_items_domain_block:
  assumes "recommend_items srt sid df_students df_items score_history = Inr recs"
    and "d \<in> set DOMAINS"
  shows "\<exists>b. domain_recs srt sid df_students df_items score_history d = Inr b"
proof -
  from recommend_items_blocks [OF assms(1)] obtain bs where
    "map (domain_recs srt sid df_students df_items score_history) DOMAINS = map Inr bs"
    by blast
  from map_Inr_block [OF this assms(2)] show ?thesis by blast
qed

text \<open>
  Claim C2 (as amended). For a learner and a domain of the fixed list, the rows returned
  for that domain are the first three (all of them when the domain has fewer items) of a
  ranking of all items of the domain by ascending gap \<open>|difficulty - theta_d|\<close>. The
  order among items of equal gap is whatever the library's default sort leaves: the
  ranking is some rearrangement of the candidates that is ascending in the gap.
\<close>

theorem top3_by_gap:
  assumes "sort_values_ok srt"
    and "recommend_items srt sid df_students df_items score_history = Inr recs"
    and "d \<in> set DOMAINS"
  shows "\<exists>th ranking.
           estimate_theta sid df_students score_history d = Inr th
         \<and> mset ranking = mset (candidates th df_items d)
         \<and> map gap (candidates th df_items d)
             = map (\<lambda>i. \<bar>item_b i - th\<bar>) (filter (\<lambda>i. item_domain i = d) df_items)
         \<and> sorted (map gap ranking)
         \<and> filter (\<lambda>r. item_domain r = d) recs = map (with_theta th) (take 3 ranking)
         \<and> length (filter (\<lambda>r. item_domain r = d) recs)
             = min 3 (length (filter (\<lambda>i. item_domain i = d) df_items))"
proof -
  from recommend_items_domain_block [OF assms(2,3)] obtain b where
    blk: "domain_recs srt sid df_students df_items score_history d = Inr b" by blast
  then obtain th where th: "estimate_theta sid df_students score_history d = Inr th"
    and b: "b = map (with_theta th) (take 3 (srt gap (candidates th df_items d)))"
    unfolding domain_recs_def by (auto split: sum.splits)
  let ?ranking = "srt gap (candidates th df_items d)"
  have perm: "mset ?ranking = mset (candidates th df_items d)"
    using assms(1) unfolding sort_values_ok_def by blast
  have gaps: "map gap (candidates th df_items d)
             = map (\<lambda>i. \<bar>item_b i - th\<bar>) (filter (\<lambda>i. item_domain i = d) df_items)"
    by (simp add: candidates_def candidate_simps comp_def)
  have srtd: "sorted (map gap ?ranking)"
    by (rule sort_values_ok_sorted [OF assms(1)])
  have sel: "filter (\<lambda>r. item_domain r = d) recs = map (with_theta th) (take 3 ?ranking)"
    using recommend_items_block [OF assms(1,2,3) blk] b by simp
  have "length ?ranking = length (filter (\<lambda>i. item_domain i = d) df_items)"
    by (simp add: sort_values_ok_length [OF assms(1)] candidates_def)
  then have len: "length (filter (\<lambda>r. item_domain r = d) recs)
             = min 3 (length (filter (\<lambda>i. item_domain i = d) df_items))"
    unfolding sel by simp
  from th perm gaps srtd sel len show ?thesis by blast
qed

text \<open>
  On the bank of four Algebra items (difficulties 0, 0, 1, 1; the estimate is 1, so the
  gaps are 1, 1, 0, 0) the cut keeps three of the four: items 2 and 3 of gap 0, then one
  item of gap 1.
\<close>

theorem top3_by_gap_witness:
  "sort_values_ok sort_key
   \<and> recommend_items sort_key 0 [ex_student] ex_four [] =
       Inr (map (\<lambda>i. with_theta 1 (candidate 1 i))
         [ex_item 2 ''Algebra'' 1, ex_item 3 ''Algebra'' 1, ex_item 0 ''Algebra'' 0])
   \<and> ''Algebra'' \<in> set DOMAINS
   \<and> length (filter (\<lambda>i. item_domain i = ''Algebra'') ex_four) = 4
   \<and> (\<exists>th ranking.
           estimate_theta 0 [ex_student] [] ''Algebra'' = Inr th
         \<and> mset ranking = mset (candidates th ex_four ''Algebra'')
         \<and> sorted (map gap ranking)
         \<and> map (with_theta 1) [candidate 1 (ex_item 2 ''Algebra'' 1),
               candidate 1 (ex_item 3 ''Algebra'' 1), candidate 1 (ex_item 0 ''Algebra'' 0)]
             = map (with_theta th) (take 3 ranking))"
proof -
  let ?recs = "map (\<lambda>i. with_theta 1 (candidate 1 i))
         [ex_item 2 ''Algebra'' 1, ex_item 3 ''Algebra'' 1, ex_item 0 ''Algebra'' 0]"
  have h2: "recommend_items sort_key 0 [ex_student] ex_four [] = Inr ?recs"
    by (simp add: rec_defs ex_defs ex_four_def)
  have h3: "''Algebra'' \<in> set DOMAINS"
    by (simp add: DOMAINS_def)
  have n: "length (filter (\<lambda>i. item_domain i = ''Algebra'') ex_four) = 4"
    by (simp add: ex_four_def ex_item_def)
  have f: "filter (\<lambda>r. item_domain r = ''Algebra'') ?recs
       = map (with_theta 1) [candidate 1 (ex_item 2 ''Algebra'' 1),
               candidate 1 (ex_item 3 ''Algebra'' 1), candidate 1 (ex_item 0 ''Algebra'' 0)]"
    by (simp add: with_theta_simps candidate_simps ex_defs)
  from top3_by_gap [OF sort_values_ok_sort_key h2 h3] obtain th ranking where
    "estimate_theta 0 [ex_student] [] ''Algebra'' = Inr th"
    "mset ranking = mset (candidates th ex_four ''Algebra'')"
    "sorted (map gap ranking)"
    "filter (\<lambda>r. item_domain r = ''Algebra'') ?recs = map (with_theta th) (take 3 ranking)"
    by blast
  with f have "\<exists>th ranking.
           estimate_theta 0 [ex_student] [] ''Algebra'' = Inr th
         \<and> mset ranking = mset (candidates th ex_four ''Algebra'')
         \<and> sorted (map gap ranking)
         \<and> map (with_theta 1) [candidate 1 (ex_item 2 ''Algebra'' 1),
               candidate 1 (ex_item 3 ''Algebra'' 1), candidate 1 (ex_item 0 ''Algebra'' 0)]
             = map (with_theta th) (take 3 ranking)"
    by metis
  with sort_values_ok_sort_key h2 h3 n show ?thesis by blast
qed

text \<open>With a stable sorting routine (here insertion sort by key) the selection is the one
  the claim describes.\<close>

lemma top3_under_stable_sort:
  assumes "recommend_items sort_key sid df_students df_items score_history = Inr recs"
    and "d \<in> set DOMAINS"
    and "estimate_theta sid df_students score_history d = Inr th"
  shows "filter (\<lambda>r. item_domain r = d) recs
       = map (with_theta th) (take 3 (sort_key gap (candidates th df_items d)))"
proof -
  have "domain_recs sort_key sid df_students df_items score_history d
      = Inr (map (with_theta th) (take 3 (sort_key gap (candidates th df_items d))))"
    by (simp add: domain_recs_def assms(3))
  from recommend_items_block [OF sort_values_ok_sort_key assms(1,2) this]
  show ?thesis .
qed

text \<open>
  The claim as stated also fixes the order of ties (original item order, a stable sort).
  On the bank of four Algebra items with difficulties 0, 0, 1, 1 and the estimate 1, the
  stable ranking selects the items 2, 3, 0. numpy's default sort leaves the rows of equal
  gap of this input in reverse order; with that order, which is within the library's
  contract, the engine returns the items 3, 2, 1.
\<close>

theorem stable_ties_counterexample:
  "sort_values_ok tie_reversing_sort
   \<and> map_sum id (map item_id) (recommend_items tie_reversing_sort 0 [ex_student] ex_four [])
       = Inr [3, 2, 1]
   \<and> estimate_theta 0 [ex_student] [] ''Algebra'' = Inr 1
   \<and> map gap (candidates 1 ex_four ''Algebra'') = [1, 1, 0, 0]
   \<and> map item_id (take 3 (sort_key gap (candidates 1 ex_four ''Algebra''))) = [2, 3, 0]"
proof -
  have "map_sum id (map item_id) (recommend_items tie_reversing_sort 0 [ex_student] ex_four [])
       = Inr [3, 2, 1]"
    by (simp add: rec_defs ex_defs ex_four_def tie_reversing_sort_def)
  moreover have "estimate_theta 0 [ex_student] [] ''Algebra'' = Inr 1"
    by (simp add: rec_defs ex_defs)
  moreover have "map gap (candidates 1 ex_four ''Algebra'') = [1, 1, 0, 0]"
    by (simp add: rec_defs ex_defs ex_four_def)
  moreover have "map item_id (take 3 (sort_key gap (candidates 1 ex_four ''Algebra''))) = [2, 3, 0]"
    by (simp add: rec_defs ex_defs ex_four_def)
  ultimately show ?thesis
    using sort_values_ok_tie_reversing by blast
qed

text \<open>
  Claim C3 (as amended). The returned collection is sorted first by domain name in
  ascending string order (Algebra, Calculus, Probability, Programming, Statistics) and
  then by gap ascending within each domain.
\<close>

theorem recommend_items_order:
  assumes "recommend_items srt sid df_students df_items score_history = Inr recs"
  shows "sorted (map (\<lambda>r. (item_domain r, gap r)) recs)
       \<and> sort DOMAINS = [''Algebra'', ''Calculus'', ''Probability'', ''Programming'', ''Statistics'']"
proof -
  have "sort DOMAINS = [''Algebra'', ''Calculus'', ''Probability'', ''Programming'', ''Statistics'']"
    by (simp add: DOMAINS_def)
  with recommend_items_sorted [OF assms] show ?thesis by blast
qed

theorem recommend_items_order_witness:
  "recommend_items sort_key 0 [ex_student] ex_items [] =
       Inr (map (\<lambda>i. with_theta 1 (candidate 1 i))
         [ex_item 0 ''Algebra'' 2, ex_item 1 ''Algebra'' 0,
          ex_item 3 ''Calculus'' 1, ex_item 2 ''Probability'' 1])
   \<and> sorted (map (\<lambda>r. (item_domain r, gap r)) (map (\<lambda>i. with_theta 1 (candidate 1 i))
         [ex_item 0 ''Algebra'' 2, ex_item 1 ''Algebra'' 0,
          ex_item 3 ''Calculus'' 1, ex_item 2 ''Probability'' 1]))"
proof -
  have h: "recommend_items sort_key 0 [ex_student] ex_items [] =
       Inr (map (\<lambda>i. with_theta 1 (candidate 1 i))
         [ex_item 0 ''Algebra'' 2, ex_item 1 ''Algebra'' 0,
          ex_item 3 ''Calculus'' 1, ex_item 2 ''Probability'' 1])"
    by (simp add: rec_defs ex_defs)
  from recommend_items_order [OF h] h show ?thesis by blast
qed

text \<open>
  As stated, the claim orders the domains as the fixed list enumerates them (Probability
  before Calculus). On the example tables the Calculus row precedes the Probability row.
\<close>

theorem enumeration_order_counterexample:
  "map_sum id (map (\<lambda>r. (item_domain r, item_id r)))
       (recommend_items sort_key 0 [ex_student] ex_items [])
     = Inr [(''Algebra'', 0), (''Algebra'', 1), (''Calculus'', 3), (''Probability'', 2)]
   \<and> domain_index ''Probability'' = 1 \<and> domain_index ''Calculus'' = 2
   \<and> map_sum id enumeration_sorted (recommend_items sort_key 0 [ex_student] ex_items [])
     = Inr False"
proof -
  have "map_sum id (map (\<lambda>r. (item_domain r, item_id r)))
       (recommend_items sort_key 0 [ex_student] ex_items [])
     = Inr [(''Algebra'', 0), (''Algebra'', 1), (''Calculus'', 3), (''Probability'', 2)]"
    by (simp add: rec_defs ex_defs)
  moreover have "domain_index ''Probability'' = 1 \<and> domain_index ''Calculus'' = 2"
    by (simp add: domain_index_def DOMAINS_def)
  moreover have "map_sum id enumeration_sorted (recommend_items sort_key 0 [ex_student] ex_items [])
     = Inr False"
    by (simp add: rec_defs ex_defs enumeration_sorted_def domain_index_def)
  ultimately show ?thesis by blast
qed

lemma student_row_error: "student_row sid df_students = Inl e \<Longrightarrow> e = IndexError"
  unfolding student_row_def by (auto split: list.splits)

lemma estimate_theta_error:
  "estimate_theta sid df_students score_history d = Inl e \<Longrightarrow>
     e = IndexError \<and> history_of sid d score_history = [] \<and> student_row sid df_students = Inl IndexError"
  unfolding estimate_theta_def Let_def
  by (auto split: if_splits sum.splits dest: student_row_error)

lemma domain_recs_error:
  "domain_recs srt sid df_students df_items score_history d = Inl e \<Longrightarrow>
     estimate_theta sid df_students score_history d = Inl e"
  unfolding domain_recs_def by (auto split: sum.splits)

lemma domain_recs_total:
  "estimate_theta sid df_students score_history d = Inr th \<Longrightarrow>
     \<exists>b. domain_recs srt sid df_students df_items score_history d = Inr b"
  unfolding domain_recs_def by simp

lemma recommend_items_total:
  assumes "\<forall>d\<in>set DOMAINS. \<exists>th. estimate_theta sid df_students score_history d = Inr th"
  shows "\<exists>recs. recommend_items srt sid df_students df_items score_history = Inr recs"
proof -
  have "\<forall>d\<in>set DOMAINS. \<exists>b. domain_recs srt sid df_students df_items score_history d = Inr b"
    using assms domain_recs_total by blast
  from collect_recs_total [OF this] show ?thesis
    unfolding recommend_items_def by auto
qed

lemma recommend_items_error:
  assumes "recommend_items srt sid df_students df_items score_history = Inl e"
  shows "e = IndexError"
proof -
  from assms have "collect_recs (domain_recs srt sid df_students df_items score_history) DOMAINS = Inl e"
    unfolding recommend_items_def by (auto split: sum.splits)
  from collect_recs_Inl [OF this] obtain d where
    "domain_recs srt sid df_students df_items score_history d = Inl e" by blast
  from estimate_theta_error [OF domain_recs_error [OF this]] show ?thesis by simp
qed

lemma recommend_items_raises:
  assumes "student_row sid df_students = Inl IndexError"
    and "d \<in> set DOMAINS" and "history_of sid d score_history = []"
  shows "recommend_items srt sid df_students df_items score_history = Inl IndexError"
proof -
  let ?f = "domain_recs srt sid df_students df_items score_history"
  from assms(1,3) have "estimate_theta sid df_students score_history d = Inl IndexError"
    unfolding estimate_theta_def by simp
  then have "?f d = Inl IndexError"
    unfolding domain_recs_def by simp
  from collect_recs_fails [of d DOMAINS ?f IndexError, OF assms(2) this]
  obtain e where "collect_recs ?f DOMAINS = Inl e"
    by blast
  then have r: "recommend_items srt sid df_students df_items score_history = Inl e"
    unfolding recommend_items_def by simp
  from recommend_items_error [OF r] r show ?thesis by simp
qed

lemma recommend_items_empty_domain:
  assumes ok: "sort_values_ok srt"
    and res: "recommend_items srt sid df_students df_items score_history = Inr recs"
    and none: "filter (\<lambda>i. item_domain i = d) df_items = []"
  shows "filter (\<lambda>r. item_domain r = d) recs = []"
proof -
  have "\<And>r. r \<in> set recs \<Longrightarrow> item_domain r \<noteq> d"
  proof
    fix r assume r: "r \<in> set recs" and rd: "item_domain r = d"
    from recommend_items_row_source [OF res r] obtain d' b where
      blk: "domain_recs srt sid df_students df_items score_history d' = Inr b" and rb: "r \<in> set b"
      by blast
    from domain_recs_domain [OF ok blk rb] rd have d': "d' = d" by simp
    from blk obtain th where
      b: "b = map (with_theta th) (take 3 (srt gap (candidates th df_items d')))"
      unfolding domain_recs_def by (auto split: sum.splits)
    have "candidates th df_items d' = []"
      using none d' by (simp add: candidates_def)
    then have "srt gap (candidates th df_items d') = []"
      using sort_values_ok_length [OF ok, of gap "candidates th df_items d'"] by simp
    with b rb show False by simp
  qed
  then show ?thesis by (auto simp: filter_empty_conv)
qed

text \<open>
  Claim C7 (as amended). For a learner id that is not in the Learner collection,
  \<^verbatim>\<open>recommend_items\<close> raises \<^verbatim>\<open>IndexError\<close> as soon as one domain of the fixed list has
  no history record for that id, and returns recommendations when every domain has one.
  For a learner of the collection the call always returns; and a domain with no item in
  the bank contributes no row to the result of a call that returns.
\<close>

theorem recommend_items_not_found:
  "(student_row sid df_students = Inl IndexError \<longrightarrow>
      (\<exists>d\<in>set DOMAINS. history_of sid d score_history = []) \<longrightarrow>
      recommend_items srt sid df_students df_items score_history = Inl IndexError)
   \<and> ((\<forall>d\<in>set DOMAINS. history_of sid d score_history \<noteq> []) \<longrightarrow>
      (\<exists>recs. recommend_items srt sid df_students df_items score_history = Inr recs))
   \<and> (student_row sid df_students = Inr row \<longrightarrow>
      (\<exists>recs. recommend_items srt sid df_students df_items score_history = Inr recs))
   \<and> (sort_values_ok srt \<longrightarrow>
      recommend_items srt sid df_students df_items score_history = Inr recs \<longrightarrow>
      filter (\<lambda>i. item_domain i = d) df_items = [] \<longrightarrow>
      filter (\<lambda>r. item_domain r = d) recs = [])"
proof -
  have raises: "student_row sid df_students = Inl IndexError \<longrightarrow>
      (\<exists>d\<in>set DOMAINS. history_of sid d score_history = []) \<longrightarrow>
      recommend_items srt sid df_students df_items score_history = Inl IndexError"
    using recommend_items_raises by blast
  have hist: "(\<forall>d\<in>set DOMAINS. history_of sid d score_history \<noteq> []) \<longrightarrow>
      (\<exists>recs. recommend_items srt sid df_students df_items score_history = Inr recs)"
  proof
    assume "\<forall>d\<in>set DOMAINS. history_of sid d score_history \<noteq> []"
    then have "\<forall>d\<in>set DOMAINS. \<exists>th. estimate_theta sid df_students score_history d = Inr th"
      by (simp add: estimate_theta_def Let_def)
    then show "\<exists>recs. recommend_items srt sid df_students df_items score_history = Inr recs"
      by (rule recommend_items_total)
  qed
  have found: "student_row sid df_students = Inr row \<longrightarrow>
      (\<exists>recs. recommend_items srt sid df_students df_items score_history = Inr recs)"
  proof
    assume "student_row sid df_students = Inr row"
    then have "\<forall>d\<in>set DOMAINS. \<exists>th. estimate_theta sid df_students score_history d = Inr th"
      by (simp add: estimate_theta_def Let_def)
    then show "\<exists>recs. recommend_items srt sid df_students df_items score_history = Inr recs"
      by (rule recommend_items_total)
  qed
  have empty: "sort_values_ok srt \<longrightarrow>
      recommend_items srt sid df_students df_items score_history = Inr recs \<longrightarrow>
      filter (\<lambda>i. item_domain i = d) df_items = [] \<longrightarrow>
      filter (\<lambda>r. item_domain r = d) recs = []"
    using recommend_items_empty_domain by blast
  from raises hist found empty show ?thesis by blast
qed

theorem recommend_items_not_found_witness:
  "student_row 99 [ex_student] = Inl IndexError
   \<and> ''Algebra'' \<in> set DOMAINS \<and> history_of 99 ''Algebra'' ex_history = []
   \<and> recommend_items sort_key 99 [ex_student] ex_items ex_history = Inl IndexError
   \<and> map (\<lambda>d. length (history_of 99 d ex_full_history)) DOMAINS = [1, 1, 1, 1, 1]
   \<and> (\<exists>recs. recommend_items sort_key 99 [ex_student] ex_items ex_full_history = Inr recs)
   \<and> student_row 0 [ex_student] = Inr ex_student
   \<and> sort_values_ok sort_key
   \<and> filter (\<lambda>i. item_domain i = ''Statistics'') ex_items = []
   \<and> recommend_items sort_key 0 [ex_student] ex_items [] =
       Inr (map (\<lambda>i. with_theta 1 (candidate 1 i))
         [ex_item 0 ''Algebra'' 2, ex_item 1 ''Algebra'' 0,
          ex_item 3 ''Calculus'' 1, ex_item 2 ''Probability'' 1])
   \<and> filter (\<lambda>r. item_domain r = ''Statistics'') (map (\<lambda>i. with_theta 1 (candidate 1 i))
         [ex_item 0 ''Algebra'' 2, ex_item 1 ''Algebra'' 0,
          ex_item 3 ''Calculus'' 1, ex_item 2 ''Probability'' 1]) = []"
proof -
  let ?recs = "map (\<lambda>i. with_theta 1 (candidate 1 i))
         [ex_item 0 ''Algebra'' 2, ex_item 1 ''Algebra'' 0,
          ex_item 3 ''Calculus'' 1, ex_item 2 ''Probability'' 1]"
  have h1: "student_row 99 [ex_student] = Inl IndexError"
    by (simp add: student_row_def ex_defs)
  have h2: "''Algebra'' \<in> set DOMAINS \<and> history_of 99 ''Algebra'' ex_history = []"
    by (simp add: DOMAINS_def history_of_def ex_defs)
  have h3: "\<forall>d\<in>set DOMAINS. history_of 99 d ex_full_history \<noteq> []"
    by (simp add: DOMAINS_def history_of_def ex_full_history_def)
  have h4: "student_row 0 [ex_student] = Inr ex_student"
    by (simp add: student_row_def ex_defs)
  have h5: "filter (\<lambda>i. item_domain i = ''Statistics'') ex_items = []"
    by (simp add: ex_defs)
  have h6: "recommend_items sort_key 0 [ex_student] ex_items [] = Inr ?recs"
    by (simp add: rec_defs ex_defs)
  from recommend_items_not_found
    [of 99 "[ex_student]" ex_history sort_key ex_items ex_student ?recs "''Statistics''"] h1 h2
  have a: "recommend_items sort_key 99 [ex_student] ex_items ex_history = Inl IndexError"
    by blast
  from recommend_items_not_found
    [of 99 "[ex_student]" ex_full_history sort_key ex_items ex_student ?recs "''Statistics''"] h3
  have b: "\<exists>recs. recommend_items sort_key 99 [ex_student] ex_items ex_full_history = Inr recs"
    by blast
  from recommend_items_not_found
    [of 0 "[ex_student]" "[]" sort_key ex_items ex_student ?recs "''Statistics''"]
    h5 h6 sort_values_ok_sort_key
  have c: "filter (\<lambda>r. item_domain r = ''Statistics'') ?recs = []"
    by blast
  have h7: "map (\<lambda>d. length (history_of 99 d ex_full_history)) DOMAINS = [1, 1, 1, 1, 1]"
    by (simp add: DOMAINS_def history_of_def ex_full_history_def)
  from h1 h2 h4 h5 h6 h7 a b c sort_values_ok_sort_key show ?thesis by blast
qed

text \<open>
  As stated, the claim has the unknown learner surfaced as an empty or placeholder result
  without a crash. On the example tables the call for the unknown id 99 raises
  \<^verbatim>\<open>IndexError\<close>; it does not return the empty collection.
\<close>

theorem not_found_counterexample:
  "student_row 99 [ex_student] = Inl IndexError
   \<and> recommend_items sort_key 99 [ex_student] ex_items [] = Inl IndexError
   \<and> recommend_items sort_key 99 [ex_student] ex_items [] \<noteq> Inr []"
  by (simp add: rec_defs ex_defs)

subsection \<open>Weekly planning agent\<close>

lemma day_weights_normalised:
  assumes "f \<noteq> 0"
  shows "normalise (map (\<lambda>x. x * f) day_shape) = Inr unit_days"
proof -
  have s: "sum_list (map (\<lambda>x. x * f) day_shape) = 7 * f"
    by (simp add: day_shape_def algebra_simps)
  have "map (\<lambda>x. x / (7 * f)) (map (\<lambda>x. x * f) day_shape) = unit_days"
    using assms by (simp add: unit_days_def)
  with assms s show ?thesis
    by (simp add: normalise_def)
qed

lemma engagement_factor_nonzero: "0 \<le> e \<Longrightarrow> 0.8 + 0.4 * e \<noteq> (0::real)"
  by auto

lemma day_rows_total: "sum_list (map sched_hours (day_rows d base unit_days)) = base"
  by (simp add: day_rows_def week_days_def unit_days_def day_shape_def algebra_simps)

lemma day_rows_domain: "r \<in> set (day_rows d base dw) \<Longrightarrow> sched_domain r = d"
  by (auto simp: day_rows_def)

lemma schedule_rows_lookup:
  assumes "distinct ds0" and "length ds0 = length hs" and "set ds \<subseteq> set ds0"
  shows "schedule_rows (zip ds0 hs) dw ds
       = Inr (concat (map (\<lambda>d. day_rows d (the (map_of (zip ds0 hs) d)) dw) ds))"
  using assms(3)
proof (induction ds)
  case Nil
  then show ?case by simp
next
  case (Cons d ds)
  then have "d \<in> set ds0" by simp
  then obtain h where "map_of (zip ds0 hs) d = Some h"
    using assms(2) by (metis map_of_zip_is_Some not_Some_eq)
  with Cons show ?case by (simp add: base_hours_def)
qed

lemma map_lookup_zip:
  assumes "distinct ds" and "length ds = length hs"
  shows "map (\<lambda>d. g d (the (map_of (zip ds hs) d))) ds = map (\<lambda>(d, h). g d h) (zip ds hs)"
proof (rule nth_equalityI)
  show "length (map (\<lambda>d. g d (the (map_of (zip ds hs) d))) ds) = length (map (\<lambda>(d, h). g d h) (zip ds hs))"
    using assms(2) by simp
next
  fix i assume "i < length (map (\<lambda>d. g d (the (map_of (zip ds hs) d))) ds)"
  then have i: "i < length ds" by simp
  with assms have "map_of (zip ds hs) (ds ! i) = Some (hs ! i)"
    by (simp add: map_of_zip_nth)
  with i assms(2) show "map (\<lambda>d. g d (the (map_of (zip ds hs) d))) ds ! i = map (\<lambda>(d, h). g d h) (zip ds hs) ! i"
    by simp
qed

lemma schedule_rows_all:
  assumes "distinct ds" and "length ds = length hs"
  shows "schedule_rows (zip ds hs) dw ds = Inr (concat (map (\<lambda>(d, h). day_rows d h dw) (zip ds hs)))"
  using schedule_rows_lookup [OF assms subset_refl, of dw]
    map_lookup_zip [OF assms, of "\<lambda>d h. day_rows d h dw"]
  by simp

lemma distinct_groupby_mean: "distinct (map fst (groupby_mean ws))"
  by (simp add: groupby_mean_def comp_def)

lemma distinct_plan_weights: "distinct (map fst (plan_weights df_traj today sid priority))"
  by (simp add: plan_weights_def distinct_groupby_mean)

lemma zip_hours:
  "zip (map fst W) (map (\<lambda>w. w * g) (map (\<lambda>x. x / T) (map snd W)))
     = map (\<lambda>(d, w). (d, w / T * g)) W"
  by (induction W) auto

lemma build_agent_plan_rows:
  assumes row: "student_row sid df_stud = Inr row"
    and eng: "0.8 + 0.4 * engagement row \<noteq> 0"
    and tot: "sum_list (map snd (plan_weights df_traj today sid priority)) \<noteq> 0"
  shows "build_agent_plan df_stud df_traj today sid priority goal_h
       = Inr (plan_of (plan_weights df_traj today sid priority) goal_h)"
proof -
  let ?W = "plan_weights df_traj today sid priority"
  let ?T = "sum_list (map snd ?W)"
  let ?hs = "map (\<lambda>w. w * goal_h) (map (\<lambda>x. x / ?T) (map snd ?W))"
  have n: "normalise (map snd ?W) = Inr (map (\<lambda>x. x / ?T) (map snd ?W))"
    using tot by (simp add: normalise_def)
  have z: "zip (map fst ?W) ?hs = map (\<lambda>(d, w). (d, w / ?T * goal_h)) ?W"
    by (rule zip_hours)
  have dw: "normalise (map (\<lambda>x. x * (0.8 + 0.4 * engagement row)) day_shape) = Inr unit_days"
    by (rule day_weights_normalised [OF eng])
  have "schedule_rows (zip (map fst ?W) ?hs) unit_days (map fst ?W)
      = Inr (concat (map (\<lambda>(d, h). day_rows d h unit_days) (zip (map fst ?W) ?hs)))"
    by (rule schedule_rows_all) (simp_all add: distinct_plan_weights)
  also have "concat (map (\<lambda>(d, h). day_rows d h unit_days) (zip (map fst ?W) ?hs)) = plan_of ?W goal_h"
    unfolding z plan_of_def by (simp add: comp_def case_prod_unfold)
  finally have sched: "schedule_rows (zip (map fst ?W) ?hs) unit_days (map fst ?W)
      = Inr (plan_of ?W goal_h)" .
  show ?thesis
    by (simp only: build_agent_plan_def Let_def row n dw sum.case sched)
qed

lemma sum_list_lower: "(\<forall>x\<in>set xs. lo \<le> x) \<Longrightarrow> real (length xs) * lo \<le> sum_list xs"
  by (induction xs) (auto simp: algebra_simps)

lemma sum_list_upper: "(\<forall>x\<in>set xs. x \<le> hi) \<Longrightarrow> sum_list xs \<le> real (length xs) * hi"
  by (induction xs) (auto simp: algebra_simps)

lemma mean_bounds:
  assumes "xs \<noteq> []" and "\<forall>x\<in>set xs. lo \<le> x \<and> x \<le> hi"
  shows "lo \<le> mean xs \<and> mean xs \<le> hi"
proof -
  from assms(1) have n: "0 < real (length xs)" by simp
  from assms(2) have "real (length xs) * lo \<le> sum_list xs" and "sum_list xs \<le> real (length xs) * hi"
    by (simp_all add: sum_list_lower sum_list_upper)
  with n show ?thesis
    unfolding mean_def by (simp add: pos_le_divide_eq pos_divide_le_eq mult.commute)
qed

lemma sum_list_pos_real:
  fixes xs :: "real list"
  shows "xs \<noteq> [] \<Longrightarrow> \<forall>x\<in>set xs. 0 < x \<Longrightarrow> 0 < sum_list xs"
  by (induction xs) (auto simp: add_pos_nonneg sum_list_nonneg less_imp_le)

lemma mean_pos:
  assumes "xs \<noteq> []" and "\<forall>x\<in>set xs. 0 < x"
  shows "0 < mean xs"
  unfolding mean_def using assms sum_list_pos_real [OF assms] by simp

lemma recent_progress_micro_mean:
  assumes inv: "\<forall>r\<in>set df_traj. lo \<le> micro_score r \<and> micro_score r \<le> hi"
    and p: "p \<in> set (recent_progress df_traj today ndays)"
  shows "lo \<le> micro_mean p \<and> micro_mean p \<le> hi"
proof -
  let ?df = "filter (\<lambda>r. traj_date r \<ge> today - ndays) df_traj"
  let ?keys = "sort (remdups (map (\<lambda>r. (traj_student_id r, traj_domain r)) ?df))"
  let ?mk = "\<lambda>(sid, d).
                let g = filter (\<lambda>r. traj_student_id r = sid \<and> traj_domain r = d) ?df
                in \<lparr>prog_student_id = sid, prog_domain = d,
                    prog_minutes = sum_list (map traj_minutes g),
                    micro_mean = mean (map micro_score g)\<rparr>"
  from p have "p \<in> set (map ?mk ?keys)"
    by (simp only: recent_progress_def Let_def)
  then obtain key where key: "key \<in> set ?keys" and pk: "p = ?mk key"
    unfolding set_map by blast
  obtain sid d where sd: "key = (sid, d)" by (cases key)
  from key sd have k: "(sid, d) \<in> set (map (\<lambda>r. (traj_student_id r, traj_domain r)) ?df)"
    by simp
  from pk sd have pm: "micro_mean p
      = mean (map micro_score (filter (\<lambda>r. traj_student_id r = sid \<and> traj_domain r = d) ?df))"
    by (simp add: Let_def)
  let ?g = "filter (\<lambda>r. traj_student_id r = sid \<and> traj_domain r = d) ?df"
  from k have ne: "map micro_score ?g \<noteq> []"
    by (auto simp: filter_empty_conv)
  have "\<forall>x\<in>set (map micro_score ?g). lo \<le> x \<and> x \<le> hi"
    using inv by auto
  from mean_bounds [OF ne this] pm show ?thesis by simp
qed

lemma df7s_micro_mean:
  assumes "\<forall>r\<in>set df_traj. lo \<le> micro_score r \<and> micro_score r \<le> hi"
    and "p \<in> set (df7s df_traj today sid)"
  shows "lo \<le> micro_mean p \<and> micro_mean p \<le> hi"
  using assms recent_progress_micro_mean unfolding df7s_def by auto

lemma initial_weights_pos:
  assumes "\<forall>p\<in>set rows. 0.05 \<le> micro_mean p \<and> micro_mean p \<le> 0.98"
  shows "\<forall>x\<in>set (initial_weights priority rows). 0 < snd x"
  using assms unfolding initial_weights_def DOMAINS_def by (auto simp: Ball_def)

lemma initial_weights_nonempty: "initial_weights priority rows \<noteq> []"
  unfolding initial_weights_def DOMAINS_def by auto

lemma groupby_mean_nonempty:
  assumes "ws \<noteq> []"
  shows "groupby_mean ws \<noteq> []"
proof -
  from assms have "set (sort (remdups (map fst ws))) \<noteq> {}" by simp
  then have "sort (remdups (map fst ws)) \<noteq> []" by (metis set_empty)
  then show ?thesis unfolding groupby_mean_def by simp
qed

lemma groupby_mean_pos:
  assumes "\<forall>x\<in>set ws. 0 < snd x"
  shows "\<forall>x\<in>set (groupby_mean ws). 0 < snd x"
proof
  fix x assume "x \<in> set (groupby_mean ws)"
  then obtain d where "d \<in> set (sort (remdups (map fst ws)))"
    and xd: "x = (d, mean (map snd (filter (\<lambda>r. fst r = d) ws)))"
    unfolding groupby_mean_def set_map by blast
  then have d: "d \<in> set (map fst ws)"
    and x: "snd x = mean (map snd (filter (\<lambda>r. fst r = d) ws))"
    by simp_all
  from d have "map snd (filter (\<lambda>r. fst r = d) ws) \<noteq> []"
    by (auto simp: filter_empty_conv)
  moreover have "\<forall>w\<in>set (map snd (filter (\<lambda>r. fst r = d) ws)). 0 < w"
    using assms by auto
  ultimately show "0 < snd x" using x mean_pos by simp
qed

lemma plan_weights_total_pos:
  assumes "\<forall>r\<in>set df_traj. 0.05 \<le> micro_score r \<and> micro_score r \<le> 0.98"
  shows "0 < sum_list (map snd (plan_weights df_traj today sid priority))"
proof -
  let ?iw = "initial_weights priority (df7s df_traj today sid)"
  have "\<forall>p\<in>set (df7s df_traj today sid). 0.05 \<le> micro_mean p \<and> micro_mean p \<le> 0.98"
    using df7s_micro_mean [OF assms] by blast
  then have "\<forall>x\<in>set ?iw. 0 < snd x" by (rule initial_weights_pos)
  then have "\<forall>x\<in>set (groupby_mean ?iw). 0 < snd x" by (rule groupby_mean_pos)
  moreover have "groupby_mean ?iw \<noteq> []"
    by (rule groupby_mean_nonempty [OF initial_weights_nonempty])
  ultimately show ?thesis
    unfolding plan_weights_def by (intro sum_list_pos_real) auto
qed

lemma concat_day_rows_total:
  "sum_list (map sched_hours (concat (map (\<lambda>(d, w). day_rows d (h w) unit_days) W)))
     = sum_list (map (\<lambda>(d, w). h w) W)"
  by (induction W) (auto simp: day_rows_total)

lemma sum_list_scaled:
  fixes T g :: real
  shows "sum_list (map (\<lambda>(d, w). w / T * g) W) = sum_list (map snd W) / T * g"
  by (induction W) (auto simp: algebra_simps add_divide_distrib)

lemma plan_of_total:
  assumes "sum_list (map snd W) \<noteq> 0"
  shows "sum_list (map sched_hours (plan_of W g)) = g"
  unfolding plan_of_def concat_day_rows_total sum_list_scaled using assms by simp

lemma concat_day_rows_domain_total:
  assumes "distinct (map fst W)" and "(d, w) \<in> set W"
  shows "domain_total d (concat (map (\<lambda>(d, w). day_rows d (h w) unit_days) W)) = h w"
  using assms
proof (induction W)
  case Nil
  then show ?case by simp
next
  case (Cons x W)
  obtain d' w' where x: "x = (d', w')" by (cases x)
  have same: "filter (\<lambda>r. sched_domain r = d') (day_rows d' (h w') unit_days) = day_rows d' (h w') unit_days"
    by (auto simp: filter_id_conv day_rows_domain)
  have other: "d \<noteq> d' \<Longrightarrow> filter (\<lambda>r. sched_domain r = d) (day_rows d' (h w') unit_days) = []"
    by (auto simp: filter_empty_conv day_rows_domain)
  show ?case
  proof (cases "d = d'")
    case True
    with Cons.prems x have w: "w = w'" and notin: "d \<notin> fst ` set W"
      by (auto simp: image_iff)
    have "filter (\<lambda>r. sched_domain r = d) (concat (map (\<lambda>(d, w). day_rows d (h w) unit_days) W)) = []"
      using notin by (auto simp: filter_empty_conv image_iff dest!: day_rows_domain)
    with True w x same show ?thesis
      by (simp add: domain_total_def day_rows_total)
  next
    case False
    with Cons.prems x have "(d, w) \<in> set W" and "distinct (map fst W)" by auto
    from Cons.IH [OF this(2,1)] False x other show ?thesis
      by (simp add: domain_total_def)
  qed
qed

lemma plan_of_domain_total:
  assumes "distinct (map fst W)" and "(d, w) \<in> set W"
  shows "domain_total d (plan_of W g) = w / sum_list (map snd W) * g"
  unfolding plan_of_def
  by (rule concat_day_rows_domain_total [OF assms, of "\<lambda>w. w / sum_list (map snd W) * g"])

lemma recent_progress_keys:
  "map (\<lambda>p. (prog_student_id p, prog_domain p)) (recent_progress df_traj today ndays)
     = sort (remdups (map (\<lambda>r. (traj_student_id r, traj_domain r))
         (filter (\<lambda>r. traj_date r \<ge> today - ndays) df_traj)))"
  unfolding recent_progress_def Let_def
  by (simp add: comp_def case_prod_unfold Let_def)

lemma distinct_filter_fst:
  assumes "distinct (map (\<lambda>p. (f p, g p)) xs)"
  shows "distinct (map g (filter (\<lambda>p. f p = a) xs))"
  using assms by (induction xs) (auto simp: image_iff)

lemma df7s_distinct: "distinct (map prog_domain (df7s df_traj today sid))"
proof -
  have "distinct (map (\<lambda>p. (prog_student_id p, prog_domain p)) (recent_progress df_traj today 7))"
    unfolding recent_progress_keys by simp
  then show ?thesis
    unfolding df7s_def by (rule distinct_filter_fst)
qed

lemma filter_distinct_key:
  assumes "distinct (map fst ws)" and "(d, w) \<in> set ws"
  shows "filter (\<lambda>r. fst r = d) ws = [(d, w)]"
  using assms by (induction ws) (auto simp: image_iff filter_empty_conv)

lemma groupby_mean_member:
  assumes "distinct (map fst ws)" and "(d, w) \<in> set ws"
  shows "(d, w) \<in> set (groupby_mean ws)"
proof -
  have "d \<in> set (sort (remdups (map fst ws)))"
    using assms(2) by (auto simp: image_iff) force
  moreover have "mean (map snd (filter (\<lambda>r. fst r = d) ws)) = w"
    by (simp add: filter_distinct_key [OF assms] mean_def)
  ultimately show ?thesis
    unfolding groupby_mean_def set_map by blast
qed

lemma weak_weight_member:
  assumes "p \<in> set (df7s df_traj today sid)"
  shows "(prog_domain p, 1 - micro_mean p) \<in> set (plan_weights df_traj today sid ''weak'')"
proof -
  let ?rows = "df7s df_traj today sid"
  let ?ws = "map (\<lambda>r. (prog_domain r, 1 - micro_mean r)) ?rows"
  from assms have iw: "initial_weights ''weak'' ?rows = ?ws"
    unfolding initial_weights_def by auto
  have "distinct (map fst ?ws)"
    using df7s_distinct [of df_traj today sid] by (simp add: comp_def)
  moreover have "(prog_domain p, 1 - micro_mean p) \<in> set ?ws"
    using assms by auto
  ultimately show ?thesis
    unfolding plan_weights_def iw by (rule groupby_mean_member)
qed

text \<open>
  Claim C5. For every learner of the collection (engagement in \<open>[0, 1]\<close>, trajectory
  micro-scores in \<open>[0.05, 0.98]\<close>, as the generator and the simulator produce them), every
  priority policy (\<^verbatim>\<open>weak\<close>, \<^verbatim>\<open>strong\<close>, and any other value, which is treated as
  balanced) and every positive weekly goal, the planning agent returns a schedule whose
  hours over all (domain, day) cells sum to the goal: exactly in real arithmetic, hence
  within the relative tolerance \<open>1e-6\<close>.
\<close>

theorem weekly_plan_total:
  assumes "student_row sid df_stud = Inr row"
    and "0 \<le> engagement row" and "engagement row \<le> 1"
    and "\<forall>r\<in>set df_traj. 0.05 \<le> micro_score r \<and> micro_score r \<le> 0.98"
    and "0 < goal_h"
  shows "\<exists>rows. build_agent_plan df_stud df_traj today sid priority goal_h = Inr rows
           \<and> sum_list (map sched_hours rows) = goal_h
           \<and> \<bar>sum_list (map sched_hours rows) - goal_h\<bar> \<le> goal_h / 1000000"
proof -
  let ?W = "plan_weights df_traj today sid priority"
  have tot: "sum_list (map snd ?W) \<noteq> 0"
    using plan_weights_total_pos [OF assms(4), of today sid priority] by simp
  have eng: "0.8 + 0.4 * engagement row \<noteq> 0"
    by (rule engagement_factor_nonzero [OF assms(2)])
  have "build_agent_plan df_stud df_traj today sid priority goal_h = Inr (plan_of ?W goal_h)"
    by (rule build_agent_plan_rows [OF assms(1) eng tot])
  moreover have "sum_list (map sched_hours (plan_of ?W goal_h)) = goal_h"
    by (rule plan_of_total [OF tot])
  ultimately show ?thesis
    using assms(5) by simp
qed

text \<open>
  Claim C6. Under the \<^verbatim>\<open>weak\<close> policy, when the learner's recent aggregates hold a
  domain of mean micro-score 0.9 and a domain of mean micro-score 0.1, the schedule gives
  strictly more hours in total to the 0.1 domain: nine times as many, the weights being
  proportional to 1 - mean micro-score.
\<close>

theorem weak_policy_favours_low_scores:
  assumes "student_row sid df_stud = Inr row"
    and "0 \<le> engagement row" and "engagement row \<le> 1"
    and "\<forall>r\<in>set df_traj. 0.05 \<le> micro_score r \<and> micro_score r \<le> 0.98"
    and "0 < goal_h"
    and "p_hi \<in> set (df7s df_traj today sid)" and "micro_mean p_hi = 0.9"
    and "p_lo \<in> set (df7s df_traj today sid)" and "micro_mean p_lo = 0.1"
  shows "\<exists>rows. build_agent_plan df_stud df_traj today sid ''weak'' goal_h = Inr rows
           \<and> domain_total (prog_domain p_hi) rows < domain_total (prog_domain p_lo) rows
           \<and> domain_total (prog_domain p_lo) rows = 9 * domain_total (prog_domain p_hi) rows"
proof -
  let ?W = "plan_weights df_traj today sid ''weak''"
  let ?T = "sum_list (map snd ?W)"
  have pos: "0 < ?T"
    by (rule plan_weights_total_pos [OF assms(4)])
  then have tot: "?T \<noteq> 0" by simp
  have eng: "0.8 + 0.4 * engagement row \<noteq> 0"
    by (rule engagement_factor_nonzero [OF assms(2)])
  have plan: "build_agent_plan df_stud df_traj today sid ''weak'' goal_h = Inr (plan_of ?W goal_h)"
    by (rule build_agent_plan_rows [OF assms(1) eng tot])
  have "(prog_domain p_hi, 1 - micro_mean p_hi) \<in> set ?W"
    by (rule weak_weight_member [OF assms(6)])
  then have hi: "domain_total (prog_domain p_hi) (plan_of ?W goal_h) = (1 - 0.9) / ?T * goal_h"
    using plan_of_domain_total [OF distinct_plan_weights] assms(7) by simp
  have "(prog_domain p_lo, 1 - micro_mean p_lo) \<in> set ?W"
    by (rule weak_weight_member [OF assms(8)])
  then have lo: "domain_total (prog_domain p_lo) (plan_of ?W goal_h) = (1 - 0.1) / ?T * goal_h"
    using plan_of_domain_total [OF distinct_plan_weights] assms(9) by simp
  have "(1 - 0.9) / ?T * goal_h < (1 - 0.1) / ?T * goal_h"
    using pos assms(5) by (simp add: divide_strict_right_mono)
  moreover have "(1 - 0.1) / ?T * goal_h = 9 * ((1 - 0.9) / ?T * goal_h)"
    by simp
  ultimately show ?thesis
    using plan hi lo by simp
qed

text \<open>
  In exact arithmetic the schedule does not depend on the learner's engagement (for any
  two values other than -2, where the factor \<open>0.8 + 0.4 * engagement\<close> is zero): the factor
  cancels in the renormalised day-weight vector. This is a fact over the reals only. In
  the IEEE double arithmetic of the source the products \<^verbatim>\<open>day_shape * factor\<close> and their
  sum are rounded, the quotient is not exactly independent of the factor, and the cells
  computed for two engagement values can differ in the last bit; that arithmetic is
  outside this embedding.
\<close>

lemma plan_exact_arithmetic_independent_of_engagement:
  assumes "student_row sid df_stud = Inr row" and "student_row sid df_stud' = Inr row'"
    and "engagement row \<noteq> - 2" and "engagement row' \<noteq> - 2"
  shows "build_agent_plan df_stud df_traj today sid priority goal_h
           = build_agent_plan df_stud' df_traj today sid priority goal_h
       \<and> normalise (map (\<lambda>x. x * (0.8 + 0.4 * engagement row)) day_shape)
           = normalise (map (\<lambda>x. x * (0.8 + 0.4 * engagement row')) day_shape)"
proof -
  have f: "0.8 + 0.4 * engagement row \<noteq> 0" and f': "0.8 + 0.4 * engagement row' \<noteq> 0"
    using assms(3,4) by auto
  have dw: "normalise (map (\<lambda>x. x * (0.8 + 0.4 * engagement row)) day_shape) = Inr unit_days"
    by (rule day_weights_normalised [OF f])
  have dw': "normalise (map (\<lambda>x. x * (0.8 + 0.4 * engagement row')) day_shape) = Inr unit_days"
    by (rule day_weights_normalised [OF f'])
  have "build_agent_plan df_stud df_traj today sid priority goal_h
           = build_agent_plan df_stud' df_traj today sid priority goal_h"
    by (simp only: build_agent_plan_def Let_def assms(1,2) dw dw' sum.case)
  with dw dw' show ?thesis by simp
qed

lemmas plan_defs = build_agent_plan_def plan_weights_def df7s_def recent_progress_def
  initial_weights_def groupby_mean_def normalise_def week_days_def day_shape_def
  base_hours_def day_rows_def student_row_def mean_def DOMAINS_def

lemma ex_week_df7s:
  "df7s ex_week 12 0 =
     [\<lparr>prog_student_id = 0, prog_domain = ''Algebra'', prog_minutes = 12, micro_mean = 0.9\<rparr>,
      \<lparr>prog_student_id = 0, prog_domain = ''Calculus'', prog_minutes = 20, micro_mean = 0.1\<rparr>]"
  by (simp add: df7s_def recent_progress_def mean_def ex_week_def)

lemma ex_week_scores: "\<forall>r\<in>set ex_week. 0.05 \<le> micro_score r \<and> micro_score r \<le> 0.98"
  by (simp add: ex_week_def)

lemma ex_student_row: "student_row 0 [ex_student] = Inr ex_student"
  by (simp add: student_row_def ex_student_def)

theorem weekly_plan_total_witness:
  "student_row 0 [ex_student] = Inr ex_student
   \<and> engagement ex_student = 0.5
   \<and> map micro_score ex_week = [0.9, 0.1]
   \<and> (\<exists>rows. build_agent_plan [ex_student] ex_week 12 0 ''weak'' 2 = Inr rows
         \<and> sum_list (map sched_hours rows) = 2)
   \<and> (\<exists>rows. build_agent_plan [ex_student] ex_week 12 0 ''strong'' 4 = Inr rows
         \<and> sum_list (map sched_hours rows) = 4)
   \<and> (\<exists>rows. build_agent_plan [ex_student] ex_week 12 0 ''balanced'' 10 = Inr rows
         \<and> sum_list (map sched_hours rows) = 10)"
proof -
  have e: "engagement ex_student = 0.5"
    by (simp add: ex_student_def)
  then have e0: "0 \<le> engagement ex_student" and e1: "engagement ex_student \<le> 1"
    by simp_all
  have m: "map micro_score ex_week = [0.9, 0.1]"
    by (simp add: ex_week_def)
  from weekly_plan_total [OF ex_student_row e0 e1 ex_week_scores, of 2 12 "''weak''"]
    weekly_plan_total [OF ex_student_row e0 e1 ex_week_scores, of 4 12 "''strong''"]
    weekly_plan_total [OF ex_student_row e0 e1 ex_week_scores, of 10 12 "''balanced''"]
    ex_student_row e m
  show ?thesis by auto
qed

theorem weak_policy_favours_low_scores_witness:
  "student_row 0 [ex_student] = Inr ex_student
   \<and> engagement ex_student = 0.5
   \<and> df7s ex_week 12 0 =
     [\<lparr>prog_student_id = 0, prog_domain = ''Algebra'', prog_minutes = 12, micro_mean = 0.9\<rparr>,
      \<lparr>prog_student_id = 0, prog_domain = ''Calculus'', prog_minutes = 20, micro_mean = 0.1\<rparr>]
   \<and> (\<exists>rows. build_agent_plan [ex_student] ex_week 12 0 ''weak'' 4 = Inr rows
         \<and> domain_total ''Algebra'' rows < domain_total ''Calculus'' rows)"
proof -
  let ?hi = "\<lparr>prog_student_id = 0, prog_domain = ''Algebra'', prog_minutes = 12, micro_mean = 0.9\<rparr>"
  let ?lo = "\<lparr>prog_student_id = 0, prog_domain = ''Calculus'', prog_minutes = 20, micro_mean = 0.1\<rparr>"
  have e: "engagement ex_student = 0.5"
    by (simp add: ex_student_def)
  then have e0: "0 \<le> engagement ex_student" and e1: "engagement ex_student \<le> 1"
    by simp_all
  have hi: "?hi \<in> set (df7s ex_week 12 0)" and lo: "?lo \<in> set (df7s ex_week 12 0)"
    by (simp_all add: ex_week_df7s)
  have g: "(0::real) < 4" by simp
  from weak_policy_favours_low_scores [OF ex_student_row e0 e1 ex_week_scores g hi _ lo]
    ex_student_row e ex_week_df7s
  show ?thesis by auto
qed

subsection \<open>Trajectory simulator\<close>

lemma day_loop_ok:
  assumes "0 \<le> lam"
  shows "\<exists>rows n'. day_loop rng r d lam today ndays ks n = Inr (rows, n')
           \<and> length rows = length ks \<and> (\<forall>x\<in>set rows. within_bounds x)"
proof (induction ks arbitrary: n)
  case Nil
  then show ?case by simp
next
  case (Cons k ks)
  from Cons [of "Suc n"] obtain rows n' where
    "day_loop rng r d lam today ndays ks (Suc n) = Inr (rows, n')"
    "length rows = length ks" "\<forall>x\<in>set rows. within_bounds x" by blast
  moreover have "np_poisson (lam / 4.5) (fst (rng n)) = Inr (int (fst (rng n)))"
    using assms by (simp add: np_poisson_def)
  moreover have "0.05 \<le> clip mu 0.05 0.98 \<and> clip mu 0.05 0.98 \<le> 0.98" for mu
    by (rule clip_bounds) simp
  ultimately show ?case
    by (simp add: Let_def within_bounds_def)
qed

lemma domain_loop_ok:
  "\<exists>rows n'. domain_loop rng r today ndays ds n = Inr (rows, n')
      \<and> length rows = length ds * ndays \<and> (\<forall>x\<in>set rows. within_bounds x)"
proof (induction ds arbitrary: n)
  case Nil
  then show ?case by simp
next
  case (Cons d ds)
  let ?lam = "max 5 (pace_min_day r * (0.5 + 0.5 * (affinity r d + 2) / 4))"
  have "0 \<le> ?lam" by simp
  from day_loop_ok [OF this, of rng r d today ndays "[0..<ndays]" n] obtain rows n' where
    a: "day_loop rng r d ?lam today ndays [0..<ndays] n = Inr (rows, n')"
    "length rows = ndays" "\<forall>x\<in>set rows. within_bounds x" by auto
  from Cons [of n'] obtain rest n'' where
    b: "domain_loop rng r today ndays ds n' = Inr (rest, n'')"
    "length rest = length ds * ndays" "\<forall>x\<in>set rest. within_bounds x" by blast
  from a b show ?case
    by (auto simp: Let_def)
qed

lemma student_loop_ok:
  "\<exists>rows n'. student_loop rng domains today ndays rs n = Inr (rows, n')
      \<and> length rows = length rs * length domains * ndays \<and> (\<forall>x\<in>set rows. within_bounds x)"
proof (induction rs arbitrary: n)
  case Nil
  then show ?case by simp
next
  case (Cons r rs)
  from domain_loop_ok [of rng r today ndays domains n] obtain rows n' where
    a: "domain_loop rng r today ndays domains n = Inr (rows, n')"
    "length rows = length domains * ndays" "\<forall>x\<in>set rows. within_bounds x" by blast
  from Cons [of n'] obtain rest n'' where
    b: "student_loop rng domains today ndays rs n' = Inr (rest, n'')"
    "length rest = length rs * length domains * ndays" "\<forall>x\<in>set rest. within_bounds x" by blast
  from a b show ?case
    by (auto simp: algebra_simps)
qed

text \<open>
  Claim C8. Whatever the random draws, the learner table, the domain list and the
  horizon, the simulator returns (the Poisson rate is never negative), with one record
  per learner, domain and day, and every record has minutes \<open>\<ge> 0\<close> and a micro-score in
  \<open>[0.05, 0.98]\<close>.
\<close>

theorem trajectories_within_bounds:
  "\<exists>rows. simulate_trajectories rng df_students domains today ndays = Inr rows
     \<and> length rows = length df_students * length domains * ndays
     \<and> (\<forall>r\<in>set rows. 0 \<le> traj_minutes r \<and> 0.05 \<le> micro_score r \<and> micro_score r \<le> 0.98)"
proof -
  from student_loop_ok [of rng domains today ndays df_students 0] obtain rows n where
    "student_loop rng domains today ndays df_students 0 = Inr (rows, n)"
    "length rows = length df_students * length domains * ndays"
    "\<forall>x\<in>set rows. within_bounds x" by blast
  then show ?thesis
    unfolding simulate_trajectories_def within_bounds_def by simp
qed

theorem trajectories_within_bounds_witness:
  "simulate_trajectories (\<lambda>n. (3 + n, 1 / 2 - real n)) [ex_student] [''Algebra''] 12 2
     = Inr [\<lparr>traj_student_id = 0, traj_domain = ''Algebra'', traj_date = 10,
              traj_minutes = 3, micro_score = 0.98\<rparr>,
            \<lparr>traj_student_id = 0, traj_domain = ''Algebra'', traj_date = 11,
              traj_minutes = 4, micro_score = 0.35\<rparr>]
   \<and> length [ex_student] * length [''Algebra''] * 2 = (2::nat)
   \<and> (0::int) \<le> 4 \<and> (0.05::real) \<le> 0.35 \<and> (0.35::real) \<le> 0.98"
proof -
  have ev: "simulate_trajectories (\<lambda>n. (3 + n, 1 / 2 - real n)) [ex_student] [''Algebra''] 12 2
     = Inr [\<lparr>traj_student_id = 0, traj_domain = ''Algebra'', traj_date = 10,
              traj_minutes = 3, micro_score = 0.98\<rparr>,
            \<lparr>traj_student_id = 0, traj_domain = ''Algebra'', traj_date = 11,
              traj_minutes = 4, micro_score = 0.35\<rparr>]"
    by (simp add: simulate_trajectories_def np_poisson_def clip_def ex_student_def upt_rec Let_def)
  from trajectories_within_bounds
    [of "\<lambda>n. (3 + n, 1 / 2 - real n)" "[ex_student]" "[''Algebra'']" 12 2] ev
  show ?thesis by simp
qed

subsection \<open>Explanation collaborator\<close>

text \<open>
  Claim C9. With no credential configured, the explanation collaborator returns a fixed,
  non-empty fallback string: \<^verbatim>\<open>safe_openai_call\<close> returns its no-key message (or, when the
  client library is missing, its no-library message) and \<^verbatim>\<open>update_learning\<close> its
  enter-your-key message, whatever the remote service, the instruction, the history or the
  prompt are. Both functions are total on that path: nothing is raised.
\<close>

theorem no_credential_fallback:
  "(falsy api_key \<longrightarrow>
      safe_openai_call OPENAI_OK create api_key system_instruction history
        = (if OPENAI_OK then NO_KEY_MESSAGE else NO_LIBRARY_MESSAGE))
   \<and> (stored_key api_store = None \<longrightarrow>
      update_learning_explanation create' api_store prompt = ENTER_KEY_MESSAGE)
   \<and> NO_KEY_MESSAGE \<noteq> [] \<and> NO_LIBRARY_MESSAGE \<noteq> [] \<and> ENTER_KEY_MESSAGE \<noteq> []"
proof -
  have call: "falsy api_key \<longrightarrow>
      safe_openai_call OPENAI_OK create api_key system_instruction history
        = (if OPENAI_OK then NO_KEY_MESSAGE else NO_LIBRARY_MESSAGE)"
    by (cases api_key) (simp_all add: safe_openai_call_def falsy_def)
  have upd: "stored_key api_store = None \<longrightarrow>
      update_learning_explanation create' api_store prompt = ENTER_KEY_MESSAGE"
    by (simp add: update_learning_explanation_def)
  have "NO_KEY_MESSAGE \<noteq> [] \<and> NO_LIBRARY_MESSAGE \<noteq> [] \<and> ENTER_KEY_MESSAGE \<noteq> []"
    by (simp add: NO_KEY_MESSAGE_def NO_LIBRARY_MESSAGE_def ENTER_KEY_MESSAGE_def)
  with call upd show ?thesis by blast
qed

theorem no_credential_fallback_witness:
  "falsy None \<and> falsy (Some [])
   \<and> safe_openai_call True (\<lambda>k h. Content ''Hello'') None ''Be brief.'' [] = NO_KEY_MESSAGE
   \<and> safe_openai_call True (\<lambda>k h. Raises ''timeout'') (Some []) ''Be brief.'' [] = NO_KEY_MESSAGE
   \<and> safe_openai_call False (\<lambda>k h. NoContent) None ''Be brief.'' [] = NO_LIBRARY_MESSAGE
   \<and> stored_key None = None \<and> stored_key (Some []) = None
   \<and> stored_key (Some [(''api_key'', Some [])]) = None
   \<and> update_learning_explanation (\<lambda>k p. Content ''Hello'') None ''Explain.'' = ENTER_KEY_MESSAGE
   \<and> update_learning_explanation (\<lambda>k p. Raises ''timeout'') (Some []) ''Explain.''
       = ENTER_KEY_MESSAGE
   \<and> update_learning_explanation (\<lambda>k p. NoContent) (Some [(''api_key'', Some [])]) ''Explain.''
       = ENTER_KEY_MESSAGE"
proof -
  have f: "falsy None" "falsy (Some [])"
    by (simp_all add: falsy_def)
  have k: "stored_key None = None" "stored_key (Some []) = None"
    "stored_key (Some [(''api_key'', Some [])]) = None"
    by (simp_all add: stored_key_def falsy_def)
  from f k
    no_credential_fallback [of None True "\<lambda>k h. Content ''Hello''" "''Be brief.''" "[]"
      None "\<lambda>k p. Content ''Hello''" "''Explain.''"]
    no_credential_fallback [of "Some []" True "\<lambda>k h. Raises ''timeout''" "''Be brief.''" "[]"
      "Some []" "\<lambda>k p. Raises ''timeout''" "''Explain.''"]
    no_credential_fallback [of None False "\<lambda>k h. NoContent" "''Be brief.''" "[]"
      "Some [(''api_key'', Some [])]" "\<lambda>k p. NoContent" "''Explain.''"]
  show ?thesis by simp
qed

end
